theory Spec2Isabelle
  imports Complex_Main
begin

section \<open>Scalar support\<close>

text \<open>
  The library computes on C \<^verbatim>\<open>float\<close>s. The embedding reads every \<^verbatim>\<open>float\<close> as a
  \<^typ>\<open>real\<close>: the branch structure, the formulas and the thresholds of the code are
  kept as written, rounding is not modelled. Where a property is shown to fail at a
  concrete input, the input is chosen so that rounding does not change the outcome.

  The header \<^verbatim>\<open>xo-math.h\<close> (constants, scalar wrappers, macros) and the operator files are
  not among the sources. What the code below needs from them is either passed in as a
  parameter (\<^verbatim>\<open>FloatEpsilon\<close>, the build switch \<^verbatim>\<open>XO_SSE\<close>) or modelled as documented here.
\<close>

text \<open>Modelled from the spec: \<^verbatim>\<open>Sin\<close>, \<^verbatim>\<open>Cos\<close>, \<^verbatim>\<open>Sqrt\<close>, \<^verbatim>\<open>ATan\<close> are the scalar support
  functions (sine, cosine, square root, arctangent) declared in the absent header.\<close>

abbreviation Sin :: "real \<Rightarrow> real" where "Sin \<equiv> sin"
abbreviation Cos :: "real \<Rightarrow> real" where "Cos \<equiv> cos"
abbreviation Sqrt :: "real \<Rightarrow> real" where "Sqrt \<equiv> sqrt"
abbreviation ATan :: "real \<Rightarrow> real" where "ATan \<equiv> arctan"

text \<open>Modelled from the spec: \<^verbatim>\<open>ATan2\<close> (spelled \<^verbatim>\<open>Atan2\<close> in Vector3.h) is the two-argument
  arctangent of the absent header, with the case analysis of C's \<^verbatim>\<open>atan2f(y, x)\<close>. On the
  negative \<open>x\<close> axis C tells \<open>y = +0\<close> (result \<open>\<pi>\<close>) from \<open>y = -0\<close> (result \<open>-\<pi>\<close>); the reals
  have one zero, read here as \<open>+0\<close>. Ranges below are stated closed at both ends, so that
  they hold for either result.\<close>

definition ATan2 :: "real \<Rightarrow> real \<Rightarrow> real" where
  "ATan2 y x =
     (if 0 < x then arctan (y / x)
      else if x < 0 then (if 0 \<le> y then arctan (y / x) + pi else arctan (y / x) - pi)
      else if 0 < y then pi / 2
      else if y < 0 then - (pi / 2)
      else 0)"

text \<open>Modelled from the spec: the degree variant converts by \<open>degrees \<times> (\<pi>/180)\<close>;
  \<^verbatim>\<open>Rad2Deg\<close> is the reciprocal factor. Both constants live in the absent header.\<close>

definition Deg2Rad :: real where
  "Deg2Rad = pi / 180"

definition Rad2Deg :: real where
  "Rad2Deg = 180 / pi"

text \<open>Modelled from the spec: \<^verbatim>\<open>CloseEnough(x, y, tolerance)\<close> holds when \<open>x\<close> is within
  \<open>tolerance\<close> of \<open>y\<close>. The function is defined in the absent header.\<close>

definition CloseEnough :: "real \<Rightarrow> real \<Rightarrow> real \<Rightarrow> bool" where
  "CloseEnough x y tolerance = (\<bar>x - y\<bar> \<le> tolerance)"

section \<open>Data model\<close>

text \<open>\<^verbatim>\<open>Vector2\<close>: \<^verbatim>\<open>struct { float x, y; }\<close>.\<close>

record Vector2 =
  V2x :: real
  V2y :: real

text \<open>\<^verbatim>\<open>Vector3\<close>: \<^verbatim>\<open>struct { float x, y, z, w; }\<close> over one \<^verbatim>\<open>__m128\<close>; the fourth lane is
  storage only.\<close>

record Vector3 =
  V3x :: real
  V3y :: real
  V3z :: real
  V3w :: real

record Vector4 =
  V4x :: real
  V4y :: real
  V4z :: real
  V4w :: real

text \<open>\<^verbatim>\<open>Matrix4x4\<close>: four \<^verbatim>\<open>Vector4\<close> rows \<^verbatim>\<open>r[0..3]\<close>.\<close>

record Matrix4x4 =
  r0 :: Vector4
  r1 :: Vector4
  r2 :: Vector4
  r3 :: Vector4

record Quaternion =
  Qx :: real
  Qy :: real
  Qz :: real
  Qw :: real

section \<open>Vector2 (Vector2.h, Vector2Methods.h)\<close>

text \<open>\<^verbatim>\<open>Vector2::Epsilon = FloatEpsilon * 2.0f\<close>.\<close>

definition Vector2_Epsilon :: "real \<Rightarrow> real" where
  "Vector2_Epsilon FloatEpsilon = FloatEpsilon * 2"

text \<open>
  A constructor is a function from the storage the object is built in to the object:
  a member the constructor does not assign keeps whatever the storage held.
  \<^verbatim>\<open>Vector2::Vector2() { }\<close> is declared under the comment ``No initialization is done''.
\<close>

definition Vector2_ctor :: "Vector2 \<Rightarrow> Vector2" where
  "Vector2_ctor storage = storage"

definition Vector2_ctor_float :: "real \<Rightarrow> Vector2 \<Rightarrow> Vector2" where
  "Vector2_ctor_float v storage = storage\<lparr>V2x := v, V2y := v\<rparr>"

definition Vector2_ctor_xy :: "real \<Rightarrow> real \<Rightarrow> Vector2 \<Rightarrow> Vector2" where
  "Vector2_ctor_xy x y storage = storage\<lparr>V2x := x, V2y := y\<rparr>"

definition Vector2_ctor_copy :: "Vector2 \<Rightarrow> Vector2 \<Rightarrow> Vector2" where
  "Vector2_ctor_copy v storage = storage\<lparr>V2x := V2x v, V2y := V2y v\<rparr>"

definition Vector2_ctor_Vector3 :: "Vector3 \<Rightarrow> Vector2 \<Rightarrow> Vector2" where
  "Vector2_ctor_Vector3 v storage = storage\<lparr>V2x := V3x v, V2y := V3y v\<rparr>"

definition Vector2_ctor_Vector4 :: "Vector4 \<Rightarrow> Vector2 \<Rightarrow> Vector2" where
  "Vector2_ctor_Vector4 v storage = storage\<lparr>V2x := V4x v, V2y := V4y v\<rparr>"

definition Vector2_UnitX :: Vector2 where
  "Vector2_UnitX = \<lparr>V2x = 1, V2y = 0\<rparr>"

definition Vector2_UnitY :: Vector2 where
  "Vector2_UnitY = \<lparr>V2x = 0, V2y = 1\<rparr>"

text \<open>Modelled from the spec: the arithmetic operators of \<^verbatim>\<open>Vector2\<close> (absent operator
  file) act componentwise.\<close>

definition Vector2_add :: "Vector2 \<Rightarrow> Vector2 \<Rightarrow> Vector2" where
  "Vector2_add a b = \<lparr>V2x = V2x a + V2x b, V2y = V2y a + V2y b\<rparr>"

definition Vector2_sub :: "Vector2 \<Rightarrow> Vector2 \<Rightarrow> Vector2" where
  "Vector2_sub a b = \<lparr>V2x = V2x a - V2x b, V2y = V2y a - V2y b\<rparr>"

definition Vector2_mul_float :: "Vector2 \<Rightarrow> real \<Rightarrow> Vector2" where
  "Vector2_mul_float a t = \<lparr>V2x = V2x a * t, V2y = V2y a * t\<rparr>"

definition Vector2_div_float :: "Vector2 \<Rightarrow> real \<Rightarrow> Vector2" where
  "Vector2_div_float a t = \<lparr>V2x = V2x a / t, V2y = V2y a / t\<rparr>"

definition Vector2_MagnitudeSquared :: "Vector2 \<Rightarrow> real" where
  "Vector2_MagnitudeSquared v = V2x v * V2x v + V2y v * V2y v"

definition Vector2_Magnitude :: "Vector2 \<Rightarrow> real" where
  "Vector2_Magnitude v = sqrt (V2x v * V2x v + V2y v * V2y v)"

definition Vector2_Normalize :: "real \<Rightarrow> Vector2 \<Rightarrow> Vector2" where
  "Vector2_Normalize FloatEpsilon this =
     (let magnitude = Vector2_MagnitudeSquared this in
      if CloseEnough magnitude 1 (Vector2_Epsilon FloatEpsilon) then this
      else if CloseEnough magnitude 0 (Vector2_Epsilon FloatEpsilon) then this
      else (let magnitude = sqrt magnitude in Vector2_div_float this magnitude))"

text \<open>\<^verbatim>\<open>Normalized\<close> runs \<^verbatim>\<open>Normalize\<close> on a copy of \<^verbatim>\<open>*this\<close>.\<close>

definition Vector2_Normalized :: "real \<Rightarrow> Vector2 \<Rightarrow> Vector2" where
  "Vector2_Normalized FloatEpsilon this = Vector2_Normalize FloatEpsilon this"

definition Vector2_Dot :: "Vector2 \<Rightarrow> Vector2 \<Rightarrow> real" where
  "Vector2_Dot a b = (V2x a * V2x b) + (V2y a * V2y b)"

definition Vector2_Cross :: "Vector2 \<Rightarrow> Vector2 \<Rightarrow> real" where
  "Vector2_Cross a b = (V2x a * V2y b) - (V2y a * V2x b)"

definition Vector2_AngleRadians :: "Vector2 \<Rightarrow> Vector2 \<Rightarrow> real" where
  "Vector2_AngleRadians a b = - ATan2 (Vector2_Cross a b) (Vector2_Dot a b)"

definition Vector2_AngleDegrees :: "Vector2 \<Rightarrow> Vector2 \<Rightarrow> real" where
  "Vector2_AngleDegrees a b = Vector2_AngleRadians a b * Rad2Deg"

text \<open>\<^verbatim>\<open>Lerp(a, b, t, outVec)\<close> stores into \<^verbatim>\<open>outVec\<close> through \<^verbatim>\<open>Set\<close>, which assigns both
  members; the function returns the new value of the out-parameter.\<close>

definition Vector2_Set :: "Vector2 \<Rightarrow> Vector2 \<Rightarrow> Vector2" where
  "Vector2_Set v this = this\<lparr>V2x := V2x v, V2y := V2y v\<rparr>"

definition Vector2_Lerp_out :: "real \<Rightarrow> Vector2 \<Rightarrow> Vector2 \<Rightarrow> real \<Rightarrow> Vector2 \<Rightarrow> Vector2" where
  "Vector2_Lerp_out FloatEpsilon a b t outVec =
     (if CloseEnough t 0 (Vector2_Epsilon FloatEpsilon) then Vector2_Set a outVec
      else if CloseEnough t 1 (Vector2_Epsilon FloatEpsilon) then Vector2_Set b outVec
      else Vector2_Set (Vector2_add a (Vector2_mul_float (Vector2_sub b a) t)) outVec)"

text \<open>The by-value form builds \<^verbatim>\<open>tempVec\<close> with the default constructor in some storage
  and delegates.\<close>

definition Vector2_Lerp :: "real \<Rightarrow> Vector2 \<Rightarrow> Vector2 \<Rightarrow> real \<Rightarrow> Vector2 \<Rightarrow> Vector2" where
  "Vector2_Lerp FloatEpsilon a b t storage =
     (let tempVec = Vector2_ctor storage in Vector2_Lerp_out FloatEpsilon a b t tempVec)"

section \<open>Vector3 (Vector3.h)\<close>

text \<open>The SSE intrinsics the file uses, lane by lane (lane 0 is \<open>x\<close>, lane 3 is \<open>w\<close>).\<close>

definition mm_set_ps :: "real \<Rightarrow> real \<Rightarrow> real \<Rightarrow> real \<Rightarrow> Vector3" where
  "mm_set_ps e3 e2 e1 e0 = \<lparr>V3x = e0, V3y = e1, V3z = e2, V3w = e3\<rparr>"

definition mm_set1_ps :: "real \<Rightarrow> Vector3" where
  "mm_set1_ps f = \<lparr>V3x = f, V3y = f, V3z = f, V3w = f\<rparr>"

definition mm_setzero_ps :: Vector3 where
  "mm_setzero_ps = \<lparr>V3x = 0, V3y = 0, V3z = 0, V3w = 0\<rparr>"

definition mm_add_ps :: "Vector3 \<Rightarrow> Vector3 \<Rightarrow> Vector3" where
  "mm_add_ps a b =
     \<lparr>V3x = V3x a + V3x b, V3y = V3y a + V3y b, V3z = V3z a + V3z b, V3w = V3w a + V3w b\<rparr>"

definition mm_sub_ps :: "Vector3 \<Rightarrow> Vector3 \<Rightarrow> Vector3" where
  "mm_sub_ps a b =
     \<lparr>V3x = V3x a - V3x b, V3y = V3y a - V3y b, V3z = V3z a - V3z b, V3w = V3w a - V3w b\<rparr>"

definition mm_mul_ps :: "Vector3 \<Rightarrow> Vector3 \<Rightarrow> Vector3" where
  "mm_mul_ps a b =
     \<lparr>V3x = V3x a * V3x b, V3y = V3y a * V3y b, V3z = V3z a * V3z b, V3w = V3w a * V3w b\<rparr>"

text \<open>\<^verbatim>\<open>_mm_and_ps(v, MASK)\<close> with \<^verbatim>\<open>MASK = (0, ~0, ~0, ~0)\<close>: lane \<open>w\<close> is cleared.\<close>

definition mm_and_MASK :: "Vector3 \<Rightarrow> Vector3" where
  "mm_and_MASK v = v\<lparr>V3w := 0\<rparr>"

text \<open>\<^verbatim>\<open>_mm_hadd_ps(a, a)\<close> twice, then \<^verbatim>\<open>_mm_cvtss_f32\<close>: the sum of the four lanes.\<close>

definition mm_hadd_ps :: "Vector3 \<Rightarrow> Vector3 \<Rightarrow> Vector3" where
  "mm_hadd_ps a b =
     \<lparr>V3x = V3x a + V3y a, V3y = V3z a + V3w a, V3z = V3x b + V3y b, V3w = V3z b + V3w b\<rparr>"

definition mm_cvtss_f32 :: "Vector3 \<Rightarrow> real" where
  "mm_cvtss_f32 a = V3x a"

text \<open>\<^verbatim>\<open>_mm_shuffle_ps(v, v, _MM_SHUFFLE(IDX_W, IDX_X, IDX_Z, IDX_Y))\<close>: lanes \<open>(y, z, x, w)\<close>;
  \<^verbatim>\<open>_MM_SHUFFLE(IDX_W, IDX_Y, IDX_X, IDX_Z)\<close>: lanes \<open>(z, x, y, w)\<close>.\<close>

definition shuffle_WXZY :: "Vector3 \<Rightarrow> Vector3" where
  "shuffle_WXZY v = \<lparr>V3x = V3y v, V3y = V3z v, V3z = V3x v, V3w = V3w v\<rparr>"

definition shuffle_WYXZ :: "Vector3 \<Rightarrow> Vector3" where
  "shuffle_WYXZ v = \<lparr>V3x = V3z v, V3y = V3x v, V3z = V3y v, V3w = V3w v\<rparr>"

text \<open>\<^verbatim>\<open>Vector3::Epsilon = FloatEpsilon+FloatEpsilon+FloatEpsilon\<close>.\<close>

definition Vector3_Epsilon :: "real \<Rightarrow> real" where
  "Vector3_Epsilon FloatEpsilon = FloatEpsilon + FloatEpsilon + FloatEpsilon"

text \<open>The constructors of \<^verbatim>\<open>Vector3\<close> all initialise the whole register \<^verbatim>\<open>m\<close>.\<close>

definition Vector3_ctor :: "Vector3 \<Rightarrow> Vector3" where
  "Vector3_ctor storage = mm_setzero_ps"

definition Vector3_ctor_float :: "real \<Rightarrow> Vector3 \<Rightarrow> Vector3" where
  "Vector3_ctor_float f storage = mm_set1_ps f"

definition Vector3_ctor_xyz :: "real \<Rightarrow> real \<Rightarrow> real \<Rightarrow> Vector3 \<Rightarrow> Vector3" where
  "Vector3_ctor_xyz x y z storage = mm_set_ps 0 z y x"

definition Vector3_ctor_copy :: "Vector3 \<Rightarrow> Vector3 \<Rightarrow> Vector3" where
  "Vector3_ctor_copy vec storage = vec"

text \<open>Shorthand for a temporary \<^verbatim>\<open>Vector3(x, y, z)\<close>.\<close>

definition Vector3_xyz :: "real \<Rightarrow> real \<Rightarrow> real \<Rightarrow> Vector3" where
  "Vector3_xyz x y z = mm_set_ps 0 z y x"

definition Vector3_Up :: Vector3 where
  "Vector3_Up = Vector3_xyz 0 1 0"

text \<open>Modelled from the spec: the operator macros \<^verbatim>\<open>VEC3D_SIMPLE_OP\<close> and
  \<^verbatim>\<open>VEC3D_SIMPLE_OP_ADD\<close> are not among the sources; the operators act componentwise,
  a scalar operand being broadcast to every lane.\<close>

definition Vector3_add :: "Vector3 \<Rightarrow> Vector3 \<Rightarrow> Vector3" where
  "Vector3_add a b = mm_add_ps a b"

definition Vector3_sub :: "Vector3 \<Rightarrow> Vector3 \<Rightarrow> Vector3" where
  "Vector3_sub a b = mm_sub_ps a b"

definition Vector3_mul_float :: "Vector3 \<Rightarrow> real \<Rightarrow> Vector3" where
  "Vector3_mul_float a f = mm_mul_ps a (mm_set1_ps f)"

definition Vector3_MagnitudeSquared :: "Vector3 \<Rightarrow> real" where
  "Vector3_MagnitudeSquared this =
     (let square = mm_and_MASK (mm_mul_ps this this);
          square = mm_hadd_ps square square;
          square = mm_hadd_ps square square
      in mm_cvtss_f32 square)"

definition Vector3_Magnitude :: "Vector3 \<Rightarrow> real" where
  "Vector3_Magnitude this =
     (let square = mm_and_MASK (mm_mul_ps this this);
          square = mm_hadd_ps square square;
          square = mm_hadd_ps square square
      in Sqrt (mm_cvtss_f32 square))"

definition Vector3_Normalize :: "real \<Rightarrow> Vector3 \<Rightarrow> Vector3" where
  "Vector3_Normalize FloatEpsilon this =
     (let magnitude = Vector3_MagnitudeSquared this in
      if magnitude - 1 \<le> Vector3_Epsilon FloatEpsilon then this
      else (let magnitude = Sqrt magnitude in
            if magnitude < Vector3_Epsilon FloatEpsilon then this
            else (let magnitude = 1 / magnitude in Vector3_mul_float this magnitude)))"

definition Vector3_Normalized :: "real \<Rightarrow> Vector3 \<Rightarrow> Vector3" where
  "Vector3_Normalized FloatEpsilon this =
     (let magnitude = Vector3_MagnitudeSquared this in
      if magnitude - 1 \<le> Vector3_Epsilon FloatEpsilon then this
      else (let magnitude = Sqrt magnitude in
            if magnitude < Vector3_Epsilon FloatEpsilon then this
            else (let magnitude = 1 / magnitude in Vector3_mul_float this magnitude)))"

definition Vector3_Dot :: "Vector3 \<Rightarrow> Vector3 \<Rightarrow> real" where
  "Vector3_Dot a b =
     (let d = mm_and_MASK (mm_mul_ps a b);
          d = mm_hadd_ps d d;
          d = mm_hadd_ps d d
      in mm_cvtss_f32 d)"

definition Vector3_Cross :: "Vector3 \<Rightarrow> Vector3 \<Rightarrow> Vector3" where
  "Vector3_Cross a b =
     (let l = mm_mul_ps (shuffle_WXZY a) (shuffle_WYXZ b);
          r = mm_mul_ps (shuffle_WYXZ a) (shuffle_WXZY b)
      in mm_sub_ps l r)"

definition Vector3_AngleRadians :: "real \<Rightarrow> Vector3 \<Rightarrow> Vector3 \<Rightarrow> real" where
  "Vector3_AngleRadians FloatEpsilon a b =
     (let l = mm_mul_ps (shuffle_WXZY a) (shuffle_WYXZ b);
          r = mm_mul_ps (shuffle_WYXZ a) (shuffle_WXZY b);
          s = mm_sub_ps l r;
          s = mm_and_MASK (mm_mul_ps s s);
          s = mm_hadd_ps s s;
          s = mm_hadd_ps s s
      in ATan2 (Sqrt (mm_cvtss_f32 s) + Vector3_Epsilon FloatEpsilon) (Vector3_Dot a b))"

definition Vector3_AngleDegrees :: "real \<Rightarrow> Vector3 \<Rightarrow> Vector3 \<Rightarrow> real" where
  "Vector3_AngleDegrees FloatEpsilon a b = Vector3_AngleRadians FloatEpsilon a b * Rad2Deg"

definition Vector3_Lerp :: "Vector3 \<Rightarrow> Vector3 \<Rightarrow> real \<Rightarrow> Vector3" where
  "Vector3_Lerp a b t = Vector3_add a (Vector3_mul_float (Vector3_sub b a) t)"

section \<open>Vector4\<close>

text \<open>Modelled from the spec: \<^verbatim>\<open>Vector4\<close> is the four-component container whose
  constructors and componentwise operators live in absent files. \<^verbatim>\<open>Vector4(Vector3)\<close> is
  taken as a parameter where it is used; \<^verbatim>\<open>Vector3(Vector4)\<close> narrows by dropping the
  trailing component.\<close>

definition Vector4_xyzw :: "real \<Rightarrow> real \<Rightarrow> real \<Rightarrow> real \<Rightarrow> Vector4" where
  "Vector4_xyzw x y z w = \<lparr>V4x = x, V4y = y, V4z = z, V4w = w\<rparr>"

definition Vector4_float :: "real \<Rightarrow> Vector4" where
  "Vector4_float m = \<lparr>V4x = m, V4y = m, V4z = m, V4w = m\<rparr>"

definition Vector4_UnitW :: Vector4 where
  "Vector4_UnitW = \<lparr>V4x = 0, V4y = 0, V4z = 0, V4w = 1\<rparr>"

definition Vector4_add :: "Vector4 \<Rightarrow> Vector4 \<Rightarrow> Vector4" where
  "Vector4_add a b =
     \<lparr>V4x = V4x a + V4x b, V4y = V4y a + V4y b, V4z = V4z a + V4z b, V4w = V4w a + V4w b\<rparr>"

definition Vector4_mul :: "Vector4 \<Rightarrow> Vector4 \<Rightarrow> Vector4" where
  "Vector4_mul a b =
     \<lparr>V4x = V4x a * V4x b, V4y = V4y a * V4y b, V4z = V4z a * V4z b, V4w = V4w a * V4w b\<rparr>"

definition Vector4_mul_float :: "Vector4 \<Rightarrow> real \<Rightarrow> Vector4" where
  "Vector4_mul_float a f = \<lparr>V4x = V4x a * f, V4y = V4y a * f, V4z = V4z a * f, V4w = V4w a * f\<rparr>"

definition Vector3_of_Vector4 :: "Vector4 \<Rightarrow> Vector3" where
  "Vector3_of_Vector4 v = \<lparr>V3x = V4x v, V3y = V4y v, V3z = V4z v, V3w = 0\<rparr>"

text \<open>A \<^verbatim>\<open>Quaternion\<close> read through \<^verbatim>\<open>(Vector4*)&q\<close>: same four floats, same order.\<close>

definition Vector4_of_Quaternion :: "Quaternion \<Rightarrow> Vector4" where
  "Vector4_of_Quaternion q = \<lparr>V4x = Qx q, V4y = Qy q, V4z = Qz q, V4w = Qw q\<rparr>"

section \<open>Matrix4x4 (Matrix4x4Methods.h)\<close>

text \<open>\<^verbatim>\<open>Matrix4x4::Matrix4x4() { }\<close> assigns no row.\<close>

definition Matrix4x4_ctor :: "Matrix4x4 \<Rightarrow> Matrix4x4" where
  "Matrix4x4_ctor storage = storage"

definition Matrix4x4_ctor_float :: "real \<Rightarrow> Matrix4x4 \<Rightarrow> Matrix4x4" where
  "Matrix4x4_ctor_float m storage =
     storage\<lparr>r0 := Vector4_float m, r1 := Vector4_float m, r2 := Vector4_float m,
       r3 := Vector4_float m\<rparr>"

definition Matrix4x4_ctor_16 ::
  "real \<Rightarrow> real \<Rightarrow> real \<Rightarrow> real \<Rightarrow> real \<Rightarrow> real \<Rightarrow> real \<Rightarrow> real \<Rightarrow>
   real \<Rightarrow> real \<Rightarrow> real \<Rightarrow> real \<Rightarrow> real \<Rightarrow> real \<Rightarrow> real \<Rightarrow> real \<Rightarrow> Matrix4x4 \<Rightarrow> Matrix4x4" where
  "Matrix4x4_ctor_16 a0 b0 c0 d0 a1 b1 c1 d1 a2 b2 c2 d2 a3 b3 c3 d3 storage =
     storage\<lparr>r0 := Vector4_xyzw a0 b0 c0 d0, r1 := Vector4_xyzw a1 b1 c1 d1,
       r2 := Vector4_xyzw a2 b2 c2 d2, r3 := Vector4_xyzw a3 b3 c3 d3\<rparr>"

definition Matrix4x4_ctor_copy :: "Matrix4x4 \<Rightarrow> Matrix4x4 \<Rightarrow> Matrix4x4" where
  "Matrix4x4_ctor_copy m storage = storage\<lparr>r0 := r0 m, r1 := r1 m, r2 := r2 m, r3 := r3 m\<rparr>"

definition Matrix4x4_ctor_rows4 ::
  "Vector4 \<Rightarrow> Vector4 \<Rightarrow> Vector4 \<Rightarrow> Vector4 \<Rightarrow> Matrix4x4 \<Rightarrow> Matrix4x4" where
  "Matrix4x4_ctor_rows4 row0 row1 row2 row3 storage =
     storage\<lparr>r0 := row0, r1 := row1, r2 := row2, r3 := row3\<rparr>"

definition Matrix4x4_ctor_rows3 ::
  "(Vector3 \<Rightarrow> Vector4) \<Rightarrow> Vector3 \<Rightarrow> Vector3 \<Rightarrow> Vector3 \<Rightarrow> Matrix4x4 \<Rightarrow> Matrix4x4" where
  "Matrix4x4_ctor_rows3 Vector4_of_Vector3 row0 row1 row2 storage =
     storage\<lparr>r0 := Vector4_of_Vector3 row0, r1 := Vector4_of_Vector3 row1,
       r2 := Vector4_of_Vector3 row2, r3 := Vector4_xyzw 0 0 0 1\<rparr>"

definition Matrix4x4_ctor_Quaternion :: "Quaternion \<Rightarrow> Matrix4x4 \<Rightarrow> Matrix4x4" where
  "Matrix4x4_ctor_Quaternion q storage =
     (let v4 = Vector4_of_Quaternion q;
          q2 = Vector4_add v4 v4;
          qq2 = Vector4_mul v4 q2;
          wq2 = Vector4_mul_float q2 (Qw q);
          xy2 = Qx q * V4y q2;
          xz2 = Qx q * V4z q2;
          yz2 = Qy q * V4z q2
      in storage\<lparr>
           r0 := Vector4_xyzw (1 - V4y qq2 - V4z qq2) (xy2 + V4z wq2) (xz2 - V4y wq2) 0,
           r1 := Vector4_xyzw (xy2 - V4z wq2) (1 - V4x qq2 - V4z qq2) (yz2 + V4x wq2) 0,
           r2 := Vector4_xyzw (xz2 + V4y wq2) (yz2 - V4x wq2) (1 - V4x qq2 - V4y qq2) 0,
           r3 := Vector4_UnitW\<rparr>)"

text \<open>A temporary \<^verbatim>\<open>Matrix4x4(a0, ..., d3)\<close>: all four rows are assigned, so the storage it
  is built in does not show.\<close>

definition Matrix4x4_16 ::
  "real \<Rightarrow> real \<Rightarrow> real \<Rightarrow> real \<Rightarrow> real \<Rightarrow> real \<Rightarrow> real \<Rightarrow> real \<Rightarrow>
   real \<Rightarrow> real \<Rightarrow> real \<Rightarrow> real \<Rightarrow> real \<Rightarrow> real \<Rightarrow> real \<Rightarrow> real \<Rightarrow> Matrix4x4" where
  "Matrix4x4_16 a0 b0 c0 d0 a1 b1 c1 d1 a2 b2 c2 d2 a3 b3 c3 d3 =
     \<lparr>r0 = Vector4_xyzw a0 b0 c0 d0, r1 = Vector4_xyzw a1 b1 c1 d1,
      r2 = Vector4_xyzw a2 b2 c2 d2, r3 = Vector4_xyzw a3 b3 c3 d3\<rparr>"

text \<open>Modelled from the spec: \<^verbatim>\<open>operator*\<close> between two matrices (absent operator file) is
  the standard row-times-column product, and \<^verbatim>\<open>a *= b\<close> assigns \<^verbatim>\<open>a * b\<close> to \<^verbatim>\<open>a\<close>.\<close>

definition row_times :: "Vector4 \<Rightarrow> Matrix4x4 \<Rightarrow> Vector4" where
  "row_times v b =
     \<lparr>V4x = V4x v * V4x (r0 b) + V4y v * V4x (r1 b) + V4z v * V4x (r2 b) + V4w v * V4x (r3 b),
      V4y = V4x v * V4y (r0 b) + V4y v * V4y (r1 b) + V4z v * V4y (r2 b) + V4w v * V4y (r3 b),
      V4z = V4x v * V4z (r0 b) + V4y v * V4z (r1 b) + V4z v * V4z (r2 b) + V4w v * V4z (r3 b),
      V4w = V4x v * V4w (r0 b) + V4y v * V4w (r1 b) + V4z v * V4w (r2 b) + V4w v * V4w (r3 b)\<rparr>"

definition Matrix4x4_mul :: "Matrix4x4 \<Rightarrow> Matrix4x4 \<Rightarrow> Matrix4x4" where
  "Matrix4x4_mul a b =
     \<lparr>r0 = row_times (r0 a) b, r1 = row_times (r1 a) b, r2 = row_times (r2 a) b,
      r3 = row_times (r3 a) b\<rparr>"

text \<open>The factories take the out-parameter \<^verbatim>\<open>m\<close> and return its new value.\<close>

definition RotationXRadians :: "real \<Rightarrow> Matrix4x4 \<Rightarrow> Matrix4x4" where
  "RotationXRadians radians m =
     (let cosr = Cos radians; sinr = Sin radians in
      Matrix4x4_16
        1 0 0 0
        0 cosr (- sinr) 0
        0 sinr cosr 0
        0 0 0 1)"

definition RotationYRadians :: "real \<Rightarrow> Matrix4x4 \<Rightarrow> Matrix4x4" where
  "RotationYRadians radians m =
     (let cosr = Cos radians; sinr = Sin radians in
      Matrix4x4_16
        cosr 0 (- sinr) 0
        0 1 0 0
        sinr 0 cosr 0
        0 0 0 1)"

definition RotationZRadians :: "real \<Rightarrow> Matrix4x4 \<Rightarrow> Matrix4x4" where
  "RotationZRadians radians m =
     (let cosr = Cos radians; sinr = Sin radians in
      Matrix4x4_16
        cosr (- sinr) 0 0
        sinr cosr 0 0
        0 0 1 0
        0 0 0 1)"

text \<open>\<^verbatim>\<open>Matrix4x4 mx, mz;\<close> are default-constructed in some storage before they are
  passed as out-parameters.\<close>

definition RotationRadians ::
  "real \<Rightarrow> real \<Rightarrow> real \<Rightarrow> Matrix4x4 \<Rightarrow> Matrix4x4 \<Rightarrow> Matrix4x4" where
  "RotationRadians x y z storage m =
     (let mx = Matrix4x4_ctor storage; mz = Matrix4x4_ctor storage;
          mx = RotationXRadians x mx;
          m = RotationYRadians y m;
          mz = RotationZRadians z mz
      in Matrix4x4_mul m (Matrix4x4_mul mx mz))"

definition AxisAngleRadians_Matrix4x4 :: "Vector3 \<Rightarrow> real \<Rightarrow> Matrix4x4 \<Rightarrow> Matrix4x4" where
  "AxisAngleRadians_Matrix4x4 a radians m =
     (let c = Cos radians; s = Sin radians; t = 1 - c;
          x = V3x a; y = V3y a; z = V3z a
      in Matrix4x4_16
        (t*x*x+c) (t*x*y-z*s) (t*x*z+y*s) 0
        (t*x*y+z*s) (t*y*y+c) (t*y*z-x*s) 0
        (t*x*z-y*s) (t*y*z+x*s) (t*z*z+c) 0
        0 0 0 1)"

definition RotationXDegrees :: "real \<Rightarrow> Matrix4x4 \<Rightarrow> Matrix4x4" where
  "RotationXDegrees degrees m = RotationXRadians (degrees * Deg2Rad) m"

definition RotationYDegrees :: "real \<Rightarrow> Matrix4x4 \<Rightarrow> Matrix4x4" where
  "RotationYDegrees degrees m = RotationYRadians (degrees * Deg2Rad) m"

definition RotationZDegrees :: "real \<Rightarrow> Matrix4x4 \<Rightarrow> Matrix4x4" where
  "RotationZDegrees degrees m = RotationZRadians (degrees * Deg2Rad) m"

definition RotationDegrees ::
  "real \<Rightarrow> real \<Rightarrow> real \<Rightarrow> Matrix4x4 \<Rightarrow> Matrix4x4 \<Rightarrow> Matrix4x4" where
  "RotationDegrees x y z storage m =
     (let m0 = Matrix4x4_ctor storage; m1 = Matrix4x4_ctor storage; m2 = Matrix4x4_ctor storage;
          m0 = RotationXDegrees x m0;
          m1 = RotationYDegrees y m1;
          m2 = RotationZDegrees z m2
      in Matrix4x4_mul (Matrix4x4_mul m0 m1) m2)"

definition AxisAngleDegrees_Matrix4x4 :: "Vector3 \<Rightarrow> real \<Rightarrow> Matrix4x4 \<Rightarrow> Matrix4x4" where
  "AxisAngleDegrees_Matrix4x4 a degrees m = AxisAngleRadians_Matrix4x4 a (degrees * Deg2Rad) m"

text \<open>Modelled from the spec: \<^verbatim>\<open>XO_ASSERT(condition, message)\<close> (absent header) reports a
  violated condition to an injectable assertion hook and lets the caller go on. The hook
  is the list of messages reported so far.\<close>

definition XO_ASSERT :: "bool \<Rightarrow> string \<Rightarrow> string list \<Rightarrow> string list" where
  "XO_ASSERT condition message hook = (if condition then hook else hook @ [message])"

text \<open>\<^verbatim>\<open>#define _XO_ASSERT_MSG(msg) "xo-math Matrix4x4" msg\<close>.\<close>

definition XO_ASSERT_MSG :: "string \<Rightarrow> string" where
  "XO_ASSERT_MSG msg = ''xo-math Matrix4x4'' @ msg"

definition OrthographicProjection ::
  "real \<Rightarrow> real \<Rightarrow> real \<Rightarrow> real \<Rightarrow> string list \<times> Matrix4x4 \<Rightarrow> string list \<times> Matrix4x4" where
  "OrthographicProjection w h n f state =
     (let hook = fst state;
          hook = XO_ASSERT (w \<noteq> 0)
            (XO_ASSERT_MSG ''::OrthographicProjection Width (w) should not be zero.'') hook;
          hook = XO_ASSERT (h \<noteq> 0)
            (XO_ASSERT_MSG ''::OrthographicProjection Height (h) should not be zero.'') hook
      in (hook, Matrix4x4_16
            (1 / w) 0 0 0
            0 (1 / h) 0 0
            0 0 (f - n) 0
            0 0 (n * (f - n)) 1))"

definition PerspectiveProjectionRadians ::
  "real \<Rightarrow> real \<Rightarrow> real \<Rightarrow> real \<Rightarrow> string list \<times> Matrix4x4 \<Rightarrow> string list \<times> Matrix4x4" where
  "PerspectiveProjectionRadians fovx fovy n f state =
     (let hook = fst state;
          hook = XO_ASSERT (n \<noteq> f)
            (XO_ASSERT_MSG
              ''::PerspectiveProjectionRadians Near (n) and far (f) values should not be equal.'')
            hook
      in (hook, Matrix4x4_16
            (ATan (fovx / 2)) 0 0 0
            0 (ATan (fovy / 2)) 0 0
            0 0 (f / (f - n)) 1
            0 0 ((- n) * (f / (- n))) 1))"

definition PerspectiveProjectionDegrees ::
  "real \<Rightarrow> real \<Rightarrow> real \<Rightarrow> real \<Rightarrow> string list \<times> Matrix4x4 \<Rightarrow> string list \<times> Matrix4x4" where
  "PerspectiveProjectionDegrees fovx fovy near far state =
     PerspectiveProjectionRadians (fovx * Deg2Rad) (fovy * Deg2Rad) near far state"

section \<open>Quaternion (Quaternion.cpp)\<close>

definition Quaternion_Identity :: Quaternion where
  "Quaternion_Identity = \<lparr>Qx = 0, Qy = 0, Qz = 0, Qw = 1\<rparr>"

text \<open>Modelled from the spec: the macros \<^verbatim>\<open>_XO_ASSIGN_QUAT(W, X, Y, Z)\<close> and
  \<^verbatim>\<open>_XO_ASSIGN_QUAT_Q(Q, W, X, Y, Z)\<close> are defined in the absent header and assign the four
  members of \<^verbatim>\<open>*this\<close> and of \<^verbatim>\<open>Q\<close>. The spec has \<open>(x, y, z)\<close> as the vector part and \<open>w\<close>
  as the scalar part, the conjugate negating the vector part and the axis-angle quaternion
  having \<open>cos\<close> as its scalar part; the uses in Quaternion.cpp then fix the argument order:
  \<^verbatim>\<open>MakeConjugate\<close> passes \<^verbatim>\<open>(w, -x, -y, -z)\<close>, \<^verbatim>\<open>Slerp\<close> passes
  \<^verbatim>\<open>(outQuat, w * f1, x * f1, y * f1, z * f1)\<close> and \<^verbatim>\<open>AxisAngleRadians\<close> passes
  \<^verbatim>\<open>(outQuat, Cos(radians), n.x, n.y, n.z)\<close>: the scalar part first, then \<open>x\<close>, \<open>y\<close>, \<open>z\<close>.\<close>

definition XO_ASSIGN_QUAT :: "real \<Rightarrow> real \<Rightarrow> real \<Rightarrow> real \<Rightarrow> Quaternion \<Rightarrow> Quaternion" where
  "XO_ASSIGN_QUAT W X Y Z this = this\<lparr>Qw := W, Qx := X, Qy := Y, Qz := Z\<rparr>"

definition XO_ASSIGN_QUAT_Q :: "Quaternion \<Rightarrow> real \<Rightarrow> real \<Rightarrow> real \<Rightarrow> real \<Rightarrow> Quaternion" where
  "XO_ASSIGN_QUAT_Q Q W X Y Z = Q\<lparr>Qw := W, Qx := X, Qy := Y, Qz := Z\<rparr>"

text \<open>\<^verbatim>\<open>Quaternion::Quaternion() { }\<close> assigns no member.\<close>

definition Quaternion_ctor :: "Quaternion \<Rightarrow> Quaternion" where
  "Quaternion_ctor storage = storage"

definition Quaternion_ctor_xyzw :: "real \<Rightarrow> real \<Rightarrow> real \<Rightarrow> real \<Rightarrow> Quaternion \<Rightarrow> Quaternion" where
  "Quaternion_ctor_xyzw x y z w storage = storage\<lparr>Qx := x, Qy := y, Qz := z, Qw := w\<rparr>"

text \<open>
  \<^verbatim>\<open>Quaternion::Quaternion(const Matrix4x4& mat)\<close>. \<open>XO_SSE\<close> tells whether the build
  defines \<^verbatim>\<open>XO_SSE\<close>: the early return assigns the identity only in the \<^verbatim>\<open>#else\<close> branch,
  the \<^verbatim>\<open>#if defined(XO_SSE)\<close> branch is empty. The reciprocal of the scale is the exact
  reciprocal in both builds of the model.
\<close>

definition Quaternion_ctor_Matrix4x4 ::
  "bool \<Rightarrow> real \<Rightarrow> Matrix4x4 \<Rightarrow> Quaternion \<Rightarrow> Quaternion" where
  "Quaternion_ctor_Matrix4x4 XO_SSE FloatEpsilon mat storage =
     (let xAxis = Vector3_of_Vector4 (r0 mat);
          yAxis = Vector3_of_Vector4 (r1 mat);
          zAxis = Vector3_of_Vector4 (r2 mat);
          scale = Vector3_xyz (Vector3_Magnitude xAxis) (Vector3_Magnitude yAxis)
                    (Vector3_Magnitude zAxis)
      in if V3x scale \<le> FloatEpsilon \<or> V3y scale \<le> FloatEpsilon \<or> V3z scale \<le> FloatEpsilon
         then (if XO_SSE then storage else (storage\<lparr>Qw := 1\<rparr>)\<lparr>Qx := 0, Qy := 0, Qz := 0\<rparr>)
         else
          (let recipScale = Vector3_xyz (1 / V3x scale) (1 / V3y scale) (1 / V3z scale);
               xAxis = Vector3_mul_float xAxis (V3x recipScale);
               yAxis = Vector3_mul_float yAxis (V3y recipScale);
               zAxis = Vector3_mul_float zAxis (V3z recipScale);
               trace = V3x xAxis + V3y yAxis + V3z zAxis + 1
           in if trace > 1 then
                (let s = (1 / 2) / Sqrt trace in
                 XO_ASSIGN_QUAT
                   ((1 / 4) / s)
                   ((V3z yAxis - V3y zAxis) * s)
                   ((V3y xAxis - V3x yAxis) * s)
                   ((V3x zAxis - V3z xAxis) * s) storage)
              else if V3x xAxis > V3y yAxis \<and> V3x xAxis > V3z zAxis then
                (let s = (1 / 2) / Sqrt (1 + V3x xAxis - V3y yAxis - V3z zAxis) in
                 XO_ASSIGN_QUAT
                   ((V3z yAxis - V3y zAxis) * s)
                   ((1 / 4) / s)
                   ((V3x zAxis + V3z xAxis) * s)
                   ((V3x yAxis + V3y xAxis) * s) storage)
              else if V3y yAxis > V3z zAxis then
                (let s = (1 / 2) / Sqrt (1 + V3y yAxis - V3x xAxis - V3z zAxis) in
                 XO_ASSIGN_QUAT
                   ((V3x zAxis - V3z xAxis) * s)
                   ((V3x yAxis + V3y xAxis) * s)
                   ((V3y zAxis + V3z yAxis) * s)
                   ((1 / 4) / s) storage)
              else
                (let s = (1 / 2) / Sqrt (1 + V3z zAxis - V3x xAxis - V3y yAxis) in
                 XO_ASSIGN_QUAT
                   ((V3y xAxis - V3x yAxis) * s)
                   ((V3x zAxis + V3z xAxis) * s)
                   ((1 / 4) / s)
                   ((V3y zAxis + V3z yAxis) * s) storage)))"

text \<open>The branch the constructor takes, with the conditions of the constructor.\<close>

datatype branch = Degenerate | TraceDominant | XDominant | YDominant | ZDominant

definition Quaternion_ctor_Matrix4x4_branch :: "real \<Rightarrow> Matrix4x4 \<Rightarrow> branch" where
  "Quaternion_ctor_Matrix4x4_branch FloatEpsilon mat =
     (let xAxis = Vector3_of_Vector4 (r0 mat);
          yAxis = Vector3_of_Vector4 (r1 mat);
          zAxis = Vector3_of_Vector4 (r2 mat);
          scale = Vector3_xyz (Vector3_Magnitude xAxis) (Vector3_Magnitude yAxis)
                    (Vector3_Magnitude zAxis)
      in if V3x scale \<le> FloatEpsilon \<or> V3y scale \<le> FloatEpsilon \<or> V3z scale \<le> FloatEpsilon
         then Degenerate
         else
          (let recipScale = Vector3_xyz (1 / V3x scale) (1 / V3y scale) (1 / V3z scale);
               xAxis = Vector3_mul_float xAxis (V3x recipScale);
               yAxis = Vector3_mul_float yAxis (V3y recipScale);
               zAxis = Vector3_mul_float zAxis (V3z recipScale);
               trace = V3x xAxis + V3y yAxis + V3z zAxis + 1
           in if trace > 1 then TraceDominant
              else if V3x xAxis > V3y yAxis \<and> V3x xAxis > V3z zAxis then XDominant
              else if V3y yAxis > V3z zAxis then YDominant
              else ZDominant))"

text \<open>
  The notions the properties of this constructor are stated with: the scale of an axis
  (the magnitude of the first three components of a matrix row), the test of the early
  return, an axis with its scale divided out, the trace the constructor computes, and
  the four-way extraction (lines 92 to 132 of Quaternion.cpp) as a function of the nine
  components of the three axes.
\<close>

definition axis_scale :: "Vector4 \<Rightarrow> real" where
  "axis_scale row = Vector3_Magnitude (Vector3_of_Vector4 row)"

definition degenerate :: "real \<Rightarrow> Matrix4x4 \<Rightarrow> bool" where
  "degenerate FloatEpsilon mat =
     (axis_scale (r0 mat) \<le> FloatEpsilon \<or> axis_scale (r1 mat) \<le> FloatEpsilon \<or>
      axis_scale (r2 mat) \<le> FloatEpsilon)"

definition unit_axis :: "Vector4 \<Rightarrow> Vector3" where
  "unit_axis row = Vector3_mul_float (Vector3_of_Vector4 row) (1 / axis_scale row)"

definition trace_plus_one :: "Matrix4x4 \<Rightarrow> real" where
  "trace_plus_one mat =
     V3x (unit_axis (r0 mat)) + V3y (unit_axis (r1 mat)) + V3z (unit_axis (r2 mat)) + 1"

definition trace_extraction ::
  "real \<Rightarrow> real \<Rightarrow> real \<Rightarrow> real \<Rightarrow> real \<Rightarrow> real \<Rightarrow> real \<Rightarrow> real \<Rightarrow> real \<Rightarrow> Quaternion" where
  "trace_extraction xx xy xz yx yy yz zx zy zz =
     (if xx + yy + zz + 1 > 1 then
        (let s = (1 / 2) / sqrt (xx + yy + zz + 1) in
         \<lparr>Qx = (yz - zy) * s, Qy = (xy - yx) * s, Qz = (zx - xz) * s, Qw = (1 / 4) / s\<rparr>)
      else if xx > yy \<and> xx > zz then
        (let s = (1 / 2) / sqrt (1 + xx - yy - zz) in
         \<lparr>Qx = (1 / 4) / s, Qy = (zx + xz) * s, Qz = (yx + xy) * s, Qw = (yz - zy) * s\<rparr>)
      else if yy > zz then
        (let s = (1 / 2) / sqrt (1 + yy - xx - zz) in
         \<lparr>Qx = (yx + xy) * s, Qy = (zy + yz) * s, Qz = (1 / 4) / s, Qw = (zx - xz) * s\<rparr>)
      else
        (let s = (1 / 2) / sqrt (1 + zz - xx - yy) in
         \<lparr>Qx = (zx + xz) * s, Qy = (1 / 4) / s, Qz = (zy + yz) * s, Qw = (xy - yx) * s\<rparr>))"

text \<open>
  Normalisation in the words of the spec, to compare \<^verbatim>\<open>Vector3::Normalized\<close> with: a vector
  whose squared magnitude is within \<^verbatim>\<open>Epsilon\<close> of 1 is returned unchanged, one whose squared
  magnitude is within \<^verbatim>\<open>Epsilon\<close> of 0 is returned unchanged, any other is scaled by the
  reciprocal of its norm.
\<close>

definition Normalized_spec :: "real \<Rightarrow> Vector3 \<Rightarrow> Vector3" where
  "Normalized_spec FloatEpsilon v =
     (if CloseEnough (Vector3_MagnitudeSquared v) 1 (Vector3_Epsilon FloatEpsilon) then v
      else if CloseEnough (Vector3_MagnitudeSquared v) 0 (Vector3_Epsilon FloatEpsilon) then v
      else Vector3_mul_float v (1 / Vector3_Magnitude v))"

text \<open>\<^verbatim>\<open>AxisAngleRadians(axis, radians, outQuat)\<close> returns the new value of \<^verbatim>\<open>outQuat\<close>.\<close>

definition AxisAngleRadians :: "real \<Rightarrow> Vector3 \<Rightarrow> real \<Rightarrow> Quaternion \<Rightarrow> Quaternion" where
  "AxisAngleRadians FloatEpsilon axis radians outQuat =
     (let hr = radians * (1 / 2);
          sr = Sin hr;
          n = Vector3_Normalized FloatEpsilon axis;
          n = Vector3_mul_float n sr
      in XO_ASSIGN_QUAT_Q outQuat (Cos radians) (V3x n) (V3y n) (V3z n))"

text \<open>The \<^verbatim>\<open>LookAt\<close> family: each function returns the new value of its out-parameter.
  The body of the three-argument \<^verbatim>\<open>LookAtFromDirection\<close> is the comment ``Todo''.\<close>

definition LookAtFromDirection :: "Vector3 \<Rightarrow> Vector3 \<Rightarrow> Quaternion \<Rightarrow> Quaternion" where
  "LookAtFromDirection direction up outQuat = outQuat"

definition LookAtFromDirection_1 :: "Vector3 \<Rightarrow> Quaternion \<Rightarrow> Quaternion" where
  "LookAtFromDirection_1 direction outQuat = LookAtFromDirection direction Vector3_Up outQuat"

definition LookAtFromPosition :: "Vector3 \<Rightarrow> Vector3 \<Rightarrow> Vector3 \<Rightarrow> Quaternion \<Rightarrow> Quaternion" where
  "LookAtFromPosition from to up outQuat = LookAtFromDirection (Vector3_sub to from) up outQuat"

definition LookAtFromPosition_2 :: "Vector3 \<Rightarrow> Vector3 \<Rightarrow> Quaternion \<Rightarrow> Quaternion" where
  "LookAtFromPosition_2 from to outQuat = LookAtFromPosition from to Vector3_Up outQuat"

section \<open>Basic facts\<close>

lemma Vector3_MagnitudeSquared_eq:
  "Vector3_MagnitudeSquared v = V3x v * V3x v + V3y v * V3y v + V3z v * V3z v"
  by (simp add: Vector3_MagnitudeSquared_def mm_and_MASK_def mm_mul_ps_def mm_hadd_ps_def
      mm_cvtss_f32_def)

lemma Vector3_Magnitude_eq:
  "Vector3_Magnitude v = sqrt (V3x v * V3x v + V3y v * V3y v + V3z v * V3z v)"
  by (simp add: Vector3_Magnitude_def mm_and_MASK_def mm_mul_ps_def mm_hadd_ps_def
      mm_cvtss_f32_def)

lemma Vector3_Dot_eq: "Vector3_Dot a b = V3x a * V3x b + V3y a * V3y b + V3z a * V3z b"
  by (simp add: Vector3_Dot_def mm_and_MASK_def mm_mul_ps_def mm_hadd_ps_def mm_cvtss_f32_def)

lemma Vector2_Set_eq: "Vector2_Set v this = v"
  by (simp add: Vector2_Set_def)

lemma XO_ASSIGN_QUAT_eq: "XO_ASSIGN_QUAT W X Y Z this = \<lparr>Qx = X, Qy = Y, Qz = Z, Qw = W\<rparr>"
  by (simp add: XO_ASSIGN_QUAT_def)

lemma Vector3_Cross_self: "Vector3_MagnitudeSquared (Vector3_Cross v v) = 0"
  by (simp add: Vector3_MagnitudeSquared_eq Vector3_Cross_def mm_mul_ps_def mm_sub_ps_def
      shuffle_WXZY_def shuffle_WYXZ_def mult.commute)

lemma Vector3_AngleRadians_eq:
  "Vector3_AngleRadians FloatEpsilon a b =
     ATan2 (sqrt (Vector3_MagnitudeSquared (Vector3_Cross a b)) + Vector3_Epsilon FloatEpsilon)
       (Vector3_Dot a b)"
  by (simp add: Vector3_AngleRadians_def Vector3_MagnitudeSquared_def Vector3_Cross_def
      mm_and_MASK_def mm_mul_ps_def mm_hadd_ps_def mm_cvtss_f32_def mm_sub_ps_def Let_def)

text \<open>The two-argument arctangent lies in \<open>[-\<pi>, \<pi>]\<close>, and in \<open>[0, \<pi>]\<close> when its first
  argument is not negative.\<close>

lemma ATan2_range: "- pi < ATan2 y x \<and> ATan2 y x \<le> pi"
proof -
  have b: "- (pi / 2) < arctan (y / x)" "arctan (y / x) < pi / 2"
    by (rule arctan_lbound, rule arctan_ubound)
  have p: "0 < pi" by simp
  consider "0 < x" | "x < 0" "0 \<le> y" | "x < 0" "y < 0" | "x = 0"
    by linarith
  then show ?thesis
  proof cases
    case 1
    then show ?thesis using b p by (simp add: ATan2_def)
  next
    case 2
    then have "y / x \<le> 0" by (simp add: divide_nonneg_neg)
    then have "arctan (y / x) \<le> 0" by (simp add: arctan_le_zero_iff)
    then show ?thesis using 2 b p by (simp add: ATan2_def)
  next
    case 3
    then have "0 < y / x" by (simp add: divide_neg_neg)
    then have "0 < arctan (y / x)" by (simp add: zero_less_arctan_iff)
    then show ?thesis using 3 b p by (simp add: ATan2_def)
  next
    case 4
    have "- (pi / 2) \<le> pi" using p by linarith
    then show ?thesis using 4 by (simp add: ATan2_def)
  qed
qed

lemma ATan2_nonneg:
  assumes "0 \<le> y"
  shows "0 \<le> ATan2 y x \<and> ATan2 y x \<le> pi"
proof -
  have b: "- (pi / 2) < arctan (y / x)" "arctan (y / x) < pi / 2"
    by (rule arctan_lbound, rule arctan_ubound)
  have p: "0 < pi" by simp
  consider "0 < x" | "x < 0" | "x = 0"
    by linarith
  then show ?thesis
  proof cases
    case 1
    then have "0 \<le> y / x" using assms by simp
    then have "0 \<le> arctan (y / x)" by (simp add: zero_le_arctan_iff)
    then show ?thesis using 1 b p by (simp add: ATan2_def)
  next
    case 2
    then have "y / x \<le> 0" using assms by (simp add: divide_nonneg_neg)
    then have "arctan (y / x) \<le> 0" by (simp add: arctan_le_zero_iff)
    then show ?thesis using 2 assms b p by (simp add: ATan2_def)
  next
    case 3
    have "0 \<le> pi / 2" "pi / 2 \<le> pi" using p by linarith+
    then show ?thesis using 3 assms by (simp add: ATan2_def)
  qed
qed

lemma Quaternion_ctor_Matrix4x4_scalar_storage:
  "Quaternion_ctor_Matrix4x4 False FloatEpsilon mat storage =
   Quaternion_ctor_Matrix4x4 False FloatEpsilon mat storage'"
  by (simp add: Quaternion_ctor_Matrix4x4_def XO_ASSIGN_QUAT_eq Let_def)

text \<open>The two guards of \<^verbatim>\<open>Vector2::Normalize\<close>, and the guards of \<^verbatim>\<open>Vector3::Normalize\<close>
  and \<^verbatim>\<open>Vector3::Normalized\<close>, spelled out.\<close>

lemma Vector2_Normalize_guard:
  "Vector2_Normalize FloatEpsilon v =
     (if \<bar>Vector2_MagnitudeSquared v - 1\<bar> \<le> 2 * FloatEpsilon then v
      else if \<bar>Vector2_MagnitudeSquared v\<bar> \<le> 2 * FloatEpsilon then v
      else Vector2_mul_float v (1 / Vector2_Magnitude v))"
  by (simp add: Vector2_Normalize_def CloseEnough_def Vector2_Epsilon_def Vector2_mul_float_def
     Vector2_div_float_def Vector2_Magnitude_def Vector2_MagnitudeSquared_def Let_def mult.commute)

lemma Vector3_Normalized_passes:
  assumes "0 \<le> FloatEpsilon" "Vector3_MagnitudeSquared v \<le> 1"
  shows "Vector3_Normalized FloatEpsilon v = v \<and> Vector3_Normalize FloatEpsilon v = v"
  using assms by (simp add: Vector3_Normalized_def Vector3_Normalize_def Vector3_Epsilon_def)

text \<open>Facts about \<^verbatim>\<open>Quaternion(Matrix4x4)\<close> and \<^verbatim>\<open>Matrix4x4(Quaternion)\<close>.\<close>

lemma unit_axis_Magnitude:
  assumes "0 < axis_scale row"
  shows "Vector3_Magnitude (unit_axis row) = 1"
proof -
  let ?n = "V4x row * V4x row + V4y row * V4y row + V4z row * V4z row"
  have m: "axis_scale row = sqrt ?n"
    by (simp add: axis_scale_def Vector3_Magnitude_eq Vector3_of_Vector4_def)
  have n0: "0 \<le> ?n" by simp
  have sq: "axis_scale row * axis_scale row = ?n"
    unfolding m using n0 by simp
  have ne: "axis_scale row \<noteq> 0" using assms by simp
  have "V3x (unit_axis row) * V3x (unit_axis row) + V3y (unit_axis row) * V3y (unit_axis row)
      + V3z (unit_axis row) * V3z (unit_axis row) = ?n / (axis_scale row * axis_scale row)"
    by (simp add: unit_axis_def Vector3_mul_float_def mm_mul_ps_def mm_set1_ps_def
        Vector3_of_Vector4_def add_divide_distrib)
  also have "\<dots> = 1" unfolding sq [symmetric] using ne by simp
  finally show ?thesis by (simp add: Vector3_Magnitude_eq)
qed

lemma Quaternion_ctor_Matrix4x4_branch_iff:
  "(Quaternion_ctor_Matrix4x4_branch FloatEpsilon mat = Degenerate) = degenerate FloatEpsilon mat"
  "(Quaternion_ctor_Matrix4x4_branch FloatEpsilon mat = TraceDominant) =
     (\<not> degenerate FloatEpsilon mat \<and> trace_plus_one mat > 1)"
  by (simp_all add: Quaternion_ctor_Matrix4x4_branch_def degenerate_def trace_plus_one_def
      unit_axis_def axis_scale_def Vector3_xyz_def mm_set_ps_def Let_def)

lemma Quaternion_ctor_Matrix4x4_degenerate:
  assumes "degenerate FloatEpsilon mat"
  shows "Quaternion_ctor_Matrix4x4 False FloatEpsilon mat storage = Quaternion_Identity"
    "Quaternion_ctor_Matrix4x4 True FloatEpsilon mat storage = storage"
  using assms
  by (simp_all add: Quaternion_ctor_Matrix4x4_def degenerate_def axis_scale_def Vector3_xyz_def
      mm_set_ps_def Quaternion_Identity_def Let_def)

lemma Quaternion_ctor_Matrix4x4_trace_dominant:
  assumes "\<not> degenerate FloatEpsilon mat" "trace_plus_one mat > 1"
  shows "Quaternion_ctor_Matrix4x4 XO_SSE FloatEpsilon mat storage =
     (let s = (1 / 2) / sqrt (trace_plus_one mat) in
      \<lparr>Qx = (V3z (unit_axis (r1 mat)) - V3y (unit_axis (r2 mat))) * s,
       Qy = (V3y (unit_axis (r0 mat)) - V3x (unit_axis (r1 mat))) * s,
       Qz = (V3x (unit_axis (r2 mat)) - V3z (unit_axis (r0 mat))) * s,
       Qw = (1 / 4) / s\<rparr>)"
  using assms
  by (simp add: Quaternion_ctor_Matrix4x4_def degenerate_def trace_plus_one_def
      unit_axis_def axis_scale_def Vector3_xyz_def mm_set_ps_def XO_ASSIGN_QUAT_eq Let_def)

lemma Quaternion_ctor_Matrix4x4_unit_scale:
  assumes "axis_scale (r0 mat) = 1" "axis_scale (r1 mat) = 1" "axis_scale (r2 mat) = 1"
    and "FloatEpsilon < 1"
  shows "Quaternion_ctor_Matrix4x4 XO_SSE FloatEpsilon mat storage =
     trace_extraction (V4x (r0 mat)) (V4y (r0 mat)) (V4z (r0 mat))
       (V4x (r1 mat)) (V4y (r1 mat)) (V4z (r1 mat))
       (V4x (r2 mat)) (V4y (r2 mat)) (V4z (r2 mat))"
  using assms
  by (simp add: Quaternion_ctor_Matrix4x4_def axis_scale_def trace_extraction_def
      Vector3_xyz_def mm_set_ps_def Vector3_mul_float_def mm_mul_ps_def mm_set1_ps_def
      Vector3_of_Vector4_def XO_ASSIGN_QUAT_eq Let_def)

lemma rows_of_Quaternion:
  "r0 (Matrix4x4_ctor_Quaternion q storage) =
     \<lparr>V4x = 1 - Qy q * (Qy q + Qy q) - Qz q * (Qz q + Qz q),
      V4y = Qx q * (Qy q + Qy q) + (Qz q + Qz q) * Qw q,
      V4z = Qx q * (Qz q + Qz q) - (Qy q + Qy q) * Qw q, V4w = 0\<rparr>"
  "r1 (Matrix4x4_ctor_Quaternion q storage) =
     \<lparr>V4x = Qx q * (Qy q + Qy q) - (Qz q + Qz q) * Qw q,
      V4y = 1 - Qx q * (Qx q + Qx q) - Qz q * (Qz q + Qz q),
      V4z = Qy q * (Qz q + Qz q) + (Qx q + Qx q) * Qw q, V4w = 0\<rparr>"
  "r2 (Matrix4x4_ctor_Quaternion q storage) =
     \<lparr>V4x = Qx q * (Qz q + Qz q) + (Qy q + Qy q) * Qw q,
      V4y = Qy q * (Qz q + Qz q) - (Qx q + Qx q) * Qw q,
      V4z = 1 - Qx q * (Qx q + Qx q) - Qy q * (Qy q + Qy q), V4w = 0\<rparr>"
  by (simp_all add: Matrix4x4_ctor_Quaternion_def Vector4_of_Quaternion_def Vector4_add_def
      Vector4_mul_def Vector4_mul_float_def Vector4_xyzw_def Let_def)

lemma rotation_rows_unit:
  fixes x y z w :: real
  assumes u: "x * x + y * y + z * z + w * w = 1"
  shows "(1 - y * (y + y) - z * (z + z)) * (1 - y * (y + y) - z * (z + z))
       + (x * (y + y) + (z + z) * w) * (x * (y + y) + (z + z) * w)
       + (x * (z + z) - (y + y) * w) * (x * (z + z) - (y + y) * w) = 1"
    "(x * (y + y) - (z + z) * w) * (x * (y + y) - (z + z) * w)
       + (1 - x * (x + x) - z * (z + z)) * (1 - x * (x + x) - z * (z + z))
       + (y * (z + z) + (x + x) * w) * (y * (z + z) + (x + x) * w) = 1"
    "(x * (z + z) + (y + y) * w) * (x * (z + z) + (y + y) * w)
       + (y * (z + z) - (x + x) * w) * (y * (z + z) - (x + x) * w)
       + (1 - x * (x + x) - y * (y + y)) * (1 - x * (x + x) - y * (y + y)) = 1"
proof -
  have a: "1 - y * (y + y) - z * (z + z) = x * x + w * w - y * y - z * z"
    using u by (simp add: algebra_simps)
  have b: "1 - x * (x + x) - z * (z + z) = y * y + w * w - x * x - z * z"
    using u by (simp add: algebra_simps)
  have c: "1 - x * (x + x) - y * (y + y) = z * z + w * w - x * x - y * y"
    using u by (simp add: algebra_simps)
  have sq: "(x * x + y * y + z * z + w * w) * (x * x + y * y + z * z + w * w) = 1"
    using u by simp
  show "(1 - y * (y + y) - z * (z + z)) * (1 - y * (y + y) - z * (z + z))
       + (x * (y + y) + (z + z) * w) * (x * (y + y) + (z + z) * w)
       + (x * (z + z) - (y + y) * w) * (x * (z + z) - (y + y) * w) = 1"
    unfolding a by (rule trans [OF _ sq]) (simp add: algebra_simps)
  show "(x * (y + y) - (z + z) * w) * (x * (y + y) - (z + z) * w)
       + (1 - x * (x + x) - z * (z + z)) * (1 - x * (x + x) - z * (z + z))
       + (y * (z + z) + (x + x) * w) * (y * (z + z) + (x + x) * w) = 1"
    unfolding b by (rule trans [OF _ sq]) (simp add: algebra_simps)
  show "(x * (z + z) + (y + y) * w) * (x * (z + z) + (y + y) * w)
       + (y * (z + z) - (x + x) * w) * (y * (z + z) - (x + x) * w)
       + (1 - x * (x + x) - y * (y + y)) * (1 - x * (x + x) - y * (y + y)) = 1"
    unfolding c by (rule trans [OF _ sq]) (simp add: algebra_simps)
qed

lemma axis_scale_of_Quaternion:
  assumes "Qx q * Qx q + Qy q * Qy q + Qz q * Qz q + Qw q * Qw q = 1"
  shows "axis_scale (r0 (Matrix4x4_ctor_Quaternion q storage)) = 1"
    "axis_scale (r1 (Matrix4x4_ctor_Quaternion q storage)) = 1"
    "axis_scale (r2 (Matrix4x4_ctor_Quaternion q storage)) = 1"
  using rotation_rows_unit [OF assms]
  by (simp_all only: axis_scale_def Vector3_Magnitude_eq rows_of_Quaternion Vector3_of_Vector4_def
      Vector3.simps Vector4.simps real_sqrt_one)

lemma sqrt_double_square: "sqrt ((2 * c) * (2 * c)) = 2 * \<bar>c\<bar>"
  by (simp only: real_sqrt_abs2 abs_mult abs_numeral)

lemma branch_values:
  fixes c d :: real
  assumes "c \<noteq> 0"
  shows "(1 / 4) / ((1 / 2) / sqrt ((2 * c) * (2 * c))) = \<bar>c\<bar>"
    and "(4 * c * d) * ((1 / 2) / sqrt ((2 * c) * (2 * c))) = (if 0 < c then d else - d)"
proof -
  show "(1 / 4) / ((1 / 2) / sqrt ((2 * c) * (2 * c))) = \<bar>c\<bar>"
    unfolding sqrt_double_square by simp
  show "(4 * c * d) * ((1 / 2) / sqrt ((2 * c) * (2 * c))) = (if 0 < c then d else - d)"
    unfolding sqrt_double_square using assms by (simp add: abs_if)
qed

lemma trace_extraction_of_rotation:
  fixes x y z w :: real
  assumes u: "x * x + y * y + z * z + w * w = 1"
  shows "trace_extraction
           (1 - y * (y + y) - z * (z + z)) (x * (y + y) + (z + z) * w) (x * (z + z) - (y + y) * w)
           (x * (y + y) - (z + z) * w) (1 - x * (x + x) - z * (z + z)) (y * (z + z) + (x + x) * w)
           (x * (z + z) + (y + y) * w) (y * (z + z) - (x + x) * w) (1 - x * (x + x) - y * (y + y))
         \<in> {\<lparr>Qx = x, Qy = z, Qz = y, Qw = w\<rparr>, \<lparr>Qx = - x, Qy = - z, Qz = - y, Qw = - w\<rparr>}"
proof -
  define xx where "xx = 1 - y * (y + y) - z * (z + z)"
  define xy where "xy = x * (y + y) + (z + z) * w"
  define xz where "xz = x * (z + z) - (y + y) * w"
  define yx where "yx = x * (y + y) - (z + z) * w"
  define yy where "yy = 1 - x * (x + x) - z * (z + z)"
  define yz where "yz = y * (z + z) + (x + x) * w"
  define zx where "zx = x * (z + z) + (y + y) * w"
  define zy where "zy = y * (z + z) - (x + x) * w"
  define zz where "zz = 1 - x * (x + x) - y * (y + y)"
  note defs = xx_def xy_def xz_def yx_def yy_def yz_def zx_def zy_def zz_def
  have tr: "xx + yy + zz + 1 = (2 * w) * (2 * w)"
    using u by (simp add: defs algebra_simps)
  have dX: "1 + xx - yy - zz = (2 * x) * (2 * x)"
    by (simp add: defs algebra_simps)
  have dY: "1 + yy - xx - zz = (2 * y) * (2 * y)"
    by (simp add: defs algebra_simps)
  have dZ: "1 + zz - xx - yy = (2 * z) * (2 * z)"
    by (simp add: defs algebra_simps)
  have oT: "yz - zy = 4 * w * x" "xy - yx = 4 * w * z" "zx - xz = 4 * w * y"
    by (simp_all add: defs algebra_simps)
  have oX: "yz - zy = 4 * x * w" "zx + xz = 4 * x * z" "yx + xy = 4 * x * y"
    by (simp_all add: defs algebra_simps)
  have oY: "zx - xz = 4 * y * w" "yx + xy = 4 * y * x" "zy + yz = 4 * y * z"
    by (simp_all add: defs algebra_simps)
  have oZ: "xy - yx = 4 * z * w" "zx + xz = 4 * z * x" "zy + yz = 4 * z * y"
    by (simp_all add: defs algebra_simps)
  have cmp: "(yy < xx) = (y * y < x * x)" "(zz < xx) = (z * z < x * x)" "(zz < yy) = (z * z < y * y)"
    by (simp_all add: defs algebra_simps)
  have trgt: "(1 < (2 * w) * (2 * w)) = (1 < 4 * (w * w))"
    by simp
  consider (T) "1 < 4 * (w * w)"
    | (X) "\<not> 1 < 4 * (w * w)" "y * y < x * x" "z * z < x * x"
    | (Y) "\<not> 1 < 4 * (w * w)" "\<not> (y * y < x * x \<and> z * z < x * x)" "z * z < y * y"
    | (Z) "\<not> 1 < 4 * (w * w)" "\<not> (y * y < x * x \<and> z * z < x * x)" "\<not> z * z < y * y"
    by blast
  then have "trace_extraction xx xy xz yx yy yz zx zy zz
         \<in> {\<lparr>Qx = x, Qy = z, Qz = y, Qw = w\<rparr>, \<lparr>Qx = - x, Qy = - z, Qz = - y, Qw = - w\<rparr>}"
  proof cases
    case T
    then have w0: "w \<noteq> 0" by auto
    have "trace_extraction xx xy xz yx yy yz zx zy zz =
       \<lparr>Qx = (4 * w * x) * ((1 / 2) / sqrt ((2 * w) * (2 * w))),
        Qy = (4 * w * z) * ((1 / 2) / sqrt ((2 * w) * (2 * w))),
        Qz = (4 * w * y) * ((1 / 2) / sqrt ((2 * w) * (2 * w))),
        Qw = (1 / 4) / ((1 / 2) / sqrt ((2 * w) * (2 * w)))\<rparr>"
      using T by (simp only: trace_extraction_def tr trgt if_True Let_def oT)
    then show ?thesis
      by (simp only: branch_values [OF w0]) (auto simp add: abs_if)
  next
    case X
    then have x0: "x \<noteq> 0" by auto
    have "trace_extraction xx xy xz yx yy yz zx zy zz =
       \<lparr>Qx = (1 / 4) / ((1 / 2) / sqrt ((2 * x) * (2 * x))),
        Qy = (4 * x * z) * ((1 / 2) / sqrt ((2 * x) * (2 * x))),
        Qz = (4 * x * y) * ((1 / 2) / sqrt ((2 * x) * (2 * x))),
        Qw = (4 * x * w) * ((1 / 2) / sqrt ((2 * x) * (2 * x)))\<rparr>"
      using X by (simp only: trace_extraction_def tr trgt cmp simp_thms if_True if_False Let_def dX oX)
    then show ?thesis
      by (simp only: branch_values [OF x0]) (auto simp add: abs_if)
  next
    case Y
    then have y0: "y \<noteq> 0" by auto
    have "trace_extraction xx xy xz yx yy yz zx zy zz =
       \<lparr>Qx = (4 * y * x) * ((1 / 2) / sqrt ((2 * y) * (2 * y))),
        Qy = (4 * y * z) * ((1 / 2) / sqrt ((2 * y) * (2 * y))),
        Qz = (1 / 4) / ((1 / 2) / sqrt ((2 * y) * (2 * y))),
        Qw = (4 * y * w) * ((1 / 2) / sqrt ((2 * y) * (2 * y)))\<rparr>"
      using Y by (simp only: trace_extraction_def tr trgt cmp simp_thms if_True if_False Let_def dY oY)
    then show ?thesis
      by (simp only: branch_values [OF y0]) (auto simp add: abs_if)
  next
    case Z
    have z0: "z \<noteq> 0"
    proof
      assume "z = 0"
      with Z have "y = 0" "x = 0" by auto
      with \<open>z = 0\<close> u have "w * w = 1" by simp
      with Z(1) show False by simp
    qed
    have "trace_extraction xx xy xz yx yy yz zx zy zz =
       \<lparr>Qx = (4 * z * x) * ((1 / 2) / sqrt ((2 * z) * (2 * z))),
        Qy = (1 / 4) / ((1 / 2) / sqrt ((2 * z) * (2 * z))),
        Qz = (4 * z * y) * ((1 / 2) / sqrt ((2 * z) * (2 * z))),
        Qw = (4 * z * w) * ((1 / 2) / sqrt ((2 * z) * (2 * z)))\<rparr>"
      using Z by (simp only: trace_extraction_def tr trgt cmp simp_thms if_True if_False Let_def dZ oZ)
    then show ?thesis
      by (simp only: branch_values [OF z0]) (auto simp add: abs_if)
  qed
  then show ?thesis by (simp only: defs)
qed

text \<open>\<^verbatim>\<open>Quaternion::AxisAngleRadians\<close> with \<^verbatim>\<open>Vector3::Normalized\<close> written out.\<close>

lemma AxisAngleRadians_as_coded:
  "AxisAngleRadians FloatEpsilon a r outQuat =
     (if Vector3_MagnitudeSquared a - 1 \<le> Vector3_Epsilon FloatEpsilon \<or>
         sqrt (Vector3_MagnitudeSquared a) < Vector3_Epsilon FloatEpsilon
      then \<lparr>Qx = V3x a * sin (r / 2), Qy = V3y a * sin (r / 2), Qz = V3z a * sin (r / 2),
            Qw = cos r\<rparr>
      else \<lparr>Qx = V3x a * (1 / sqrt (Vector3_MagnitudeSquared a)) * sin (r / 2),
            Qy = V3y a * (1 / sqrt (Vector3_MagnitudeSquared a)) * sin (r / 2),
            Qz = V3z a * (1 / sqrt (Vector3_MagnitudeSquared a)) * sin (r / 2),
            Qw = cos r\<rparr>)"
  by (simp add: AxisAngleRadians_def XO_ASSIGN_QUAT_Q_def Vector3_mul_float_def mm_mul_ps_def
      mm_set1_ps_def Vector3_Normalized_def Let_def)

text \<open>Degrees and radians.\<close>

lemma Deg2Rad_90: "90 * Deg2Rad = pi / 2"
  by (simp add: Deg2Rad_def)

lemma RotationDegrees_eq:
  "RotationDegrees x y z storage m =
     Matrix4x4_mul
       (Matrix4x4_mul (RotationXRadians (x * Deg2Rad) m) (RotationYRadians (y * Deg2Rad) m))
       (RotationZRadians (z * Deg2Rad) m)"
  by (simp add: RotationDegrees_def RotationXDegrees_def RotationYDegrees_def RotationZDegrees_def
      RotationXRadians_def RotationYRadians_def RotationZRadians_def Let_def)

lemma RotationRadians_eq:
  "RotationRadians x y z storage m =
     Matrix4x4_mul (RotationYRadians y m)
       (Matrix4x4_mul (RotationXRadians x m) (RotationZRadians z m))"
  by (simp add: RotationRadians_def RotationXRadians_def RotationYRadians_def
      RotationZRadians_def Let_def)

lemma single_axis_Degrees:
  "RotationXDegrees d m = RotationXRadians (d * Deg2Rad) m \<and>
   RotationYDegrees d m = RotationYRadians (d * Deg2Rad) m \<and>
   RotationZDegrees d m = RotationZRadians (d * Deg2Rad) m \<and>
   AxisAngleDegrees_Matrix4x4 a d m = AxisAngleRadians_Matrix4x4 a (d * Deg2Rad) m \<and>
   PerspectiveProjectionDegrees fovx fovy n f state =
     PerspectiveProjectionRadians (fovx * Deg2Rad) (fovy * Deg2Rad) n f state"
  by (simp add: RotationXDegrees_def RotationYDegrees_def RotationZDegrees_def
      AxisAngleDegrees_Matrix4x4_def PerspectiveProjectionDegrees_def)

lemma RotationDegrees_90_90_90:
  "RotationDegrees 90 90 90 storage m =
     Matrix4x4_16
       0 0 (- 1) 0
       0 1 0 0
       1 0 0 0
       0 0 0 1"
  by (simp add: RotationDegrees_def RotationXDegrees_def RotationYDegrees_def RotationZDegrees_def
      RotationXRadians_def RotationYRadians_def RotationZRadians_def Deg2Rad_90
      Matrix4x4_mul_def row_times_def Matrix4x4_16_def Vector4_xyzw_def Matrix4x4_ctor_def Let_def)

lemma RotationRadians_90_90_90:
  "RotationRadians (90 * Deg2Rad) (90 * Deg2Rad) (90 * Deg2Rad) storage m =
     Matrix4x4_16
       (- 1) 0 0 0
       0 0 (- 1) 0
       0 (- 1) 0 0
       0 0 0 1"
  by (simp add: RotationRadians_def RotationXRadians_def RotationYRadians_def
      RotationZRadians_def Deg2Rad_90 Matrix4x4_mul_def row_times_def Matrix4x4_16_def
      Vector4_xyzw_def Matrix4x4_ctor_def Let_def)

section \<open>The LookAt family of Quaternion\<close>

text \<open>
  C10. \<^verbatim>\<open>Quaternion::LookAtFromDirection(direction, up, outQuat)\<close> leaves \<^verbatim>\<open>outQuat\<close> as it
  was, for every direction, up vector and quaternion; so do the one-argument overload
  and both \<^verbatim>\<open>LookAtFromPosition\<close> overloads, which delegate to it.
\<close>

theorem LookAt_leaves_outQuat:
  "LookAtFromDirection direction up outQuat = outQuat \<and>
   LookAtFromDirection_1 direction outQuat = outQuat \<and>
   LookAtFromPosition from to up outQuat = outQuat \<and>
   LookAtFromPosition_2 from to outQuat = outQuat"
  by (simp add: LookAtFromDirection_def LookAtFromDirection_1_def LookAtFromPosition_def
      LookAtFromPosition_2_def)

section \<open>Axis and angle to quaternion\<close>


text \<open>
  For an axis of squared magnitude above \<open>1 + Epsilon\<close> (and \<^verbatim>\<open>FloatEpsilon\<close> between 0 and
  \<open>1/3\<close>) \<^verbatim>\<open>Vector3::Normalized\<close> agrees with the normalisation of the spec and yields a vector
  of magnitude 1; then \<^verbatim>\<open>Quaternion::AxisAngleRadians\<close> stores the normalised axis times
  \<open>sin (r / 2)\<close> in the vector part and \<open>cos r\<close> in the scalar part.
\<close>

theorem AxisAngleRadians_long_axis:
  assumes "0 \<le> FloatEpsilon" "FloatEpsilon \<le> 1 / 3"
    and "1 + Vector3_Epsilon FloatEpsilon < Vector3_MagnitudeSquared a"
  shows "Vector3_Normalized FloatEpsilon a = Normalized_spec FloatEpsilon a \<and>
    Vector3_Magnitude (Vector3_Normalized FloatEpsilon a) = 1 \<and>
    Qx (AxisAngleRadians FloatEpsilon a r outQuat) = V3x (Normalized_spec FloatEpsilon a) * sin (r / 2) \<and>
    Qy (AxisAngleRadians FloatEpsilon a r outQuat) = V3y (Normalized_spec FloatEpsilon a) * sin (r / 2) \<and>
    Qz (AxisAngleRadians FloatEpsilon a r outQuat) = V3z (Normalized_spec FloatEpsilon a) * sin (r / 2) \<and>
    Qw (AxisAngleRadians FloatEpsilon a r outQuat) = cos r"
proof -
  let ?m = "Vector3_MagnitudeSquared a"
  have e: "0 \<le> Vector3_Epsilon FloatEpsilon" "Vector3_Epsilon FloatEpsilon \<le> 1"
    using assms(1,2) by (simp_all add: Vector3_Epsilon_def)
  have m1: "1 < ?m" using assms(3) e by linarith
  then have s1: "1 < sqrt ?m" by simp
  have n1: "\<not> ?m - 1 \<le> Vector3_Epsilon FloatEpsilon" using assms(3) by linarith
  have n2: "\<not> sqrt ?m < Vector3_Epsilon FloatEpsilon" using s1 e by linarith
  have c1: "\<not> CloseEnough ?m 1 (Vector3_Epsilon FloatEpsilon)"
    using assms(3) m1 by (simp add: CloseEnough_def)
  have c2: "\<not> CloseEnough ?m 0 (Vector3_Epsilon FloatEpsilon)"
    using assms(3) m1 e by (simp add: CloseEnough_def)
  have mag: "Vector3_Magnitude a = sqrt ?m"
    by (simp add: Vector3_Magnitude_eq Vector3_MagnitudeSquared_eq)
  have code: "Vector3_Normalized FloatEpsilon a = Vector3_mul_float a (1 / sqrt ?m)"
    using n1 n2 by (simp add: Vector3_Normalized_def Let_def)
  have spec: "Normalized_spec FloatEpsilon a = Vector3_mul_float a (1 / sqrt ?m)"
    using c1 c2 by (simp add: Normalized_spec_def mag)
  have eq: "Vector3_Normalized FloatEpsilon a = Normalized_spec FloatEpsilon a"
    by (simp only: code spec)
  have sq: "sqrt ?m * sqrt ?m = ?m" using m1 by simp
  have ne: "sqrt ?m \<noteq> 0" using s1 by simp
  have scale: "Vector3_MagnitudeSquared (Vector3_mul_float a k) = k * k * ?m" for k
    by (simp add: Vector3_MagnitudeSquared_eq Vector3_mul_float_def mm_mul_ps_def mm_set1_ps_def
        algebra_simps)
  have gen: "(1 / s) * (1 / s) * (s * s) = 1" if "s \<noteq> 0" for s :: real
    using that by simp
  have "(1 / sqrt ?m) * (1 / sqrt ?m) * ?m = (1 / sqrt ?m) * (1 / sqrt ?m) * (sqrt ?m * sqrt ?m)"
    by (simp only: sq)
  also have "\<dots> = 1" using ne by (rule gen)
  finally have msq: "Vector3_MagnitudeSquared (Vector3_mul_float a (1 / sqrt ?m)) = 1"
    by (simp only: scale)
  have rel: "Vector3_Magnitude w = sqrt (Vector3_MagnitudeSquared w)" for w
    by (simp add: Vector3_Magnitude_eq Vector3_MagnitudeSquared_eq)
  have unit: "Vector3_Magnitude (Vector3_Normalized FloatEpsilon a) = 1"
    by (simp only: code rel msq real_sqrt_one)
  have parts: "Qx (AxisAngleRadians FloatEpsilon a r outQuat) =
        V3x (Vector3_Normalized FloatEpsilon a) * sin (r / 2)"
      "Qy (AxisAngleRadians FloatEpsilon a r outQuat) =
        V3y (Vector3_Normalized FloatEpsilon a) * sin (r / 2)"
      "Qz (AxisAngleRadians FloatEpsilon a r outQuat) =
        V3z (Vector3_Normalized FloatEpsilon a) * sin (r / 2)"
      "Qw (AxisAngleRadians FloatEpsilon a r outQuat) = cos r"
    by (simp_all add: AxisAngleRadians_def XO_ASSIGN_QUAT_Q_def Vector3_mul_float_def
        mm_mul_ps_def mm_set1_ps_def Let_def)
  show ?thesis
    using eq unit parts by (simp only: simp_thms)
qed

theorem AxisAngleRadians_long_axis_witness:
  "(0 :: real) \<le> 1 / 8388608 \<and> (1 / 8388608 :: real) \<le> 1 / 3 \<and>
   1 + Vector3_Epsilon (1 / 8388608) < Vector3_MagnitudeSquared (Vector3_xyz 0 0 2) \<and>
   Vector3_Magnitude (Vector3_Normalized (1 / 8388608) (Vector3_xyz 0 0 2)) = 1 \<and>
   Qw (AxisAngleRadians (1 / 8388608) (Vector3_xyz 0 0 2) pi \<lparr>Qx = 0, Qy = 0, Qz = 0, Qw = 0\<rparr>)
     = cos pi"
proof -
  have e: "(0 :: real) \<le> 1 / 8388608" "(1 / 8388608 :: real) \<le> 1 / 3"
    by simp_all
  have m: "1 + Vector3_Epsilon (1 / 8388608) < Vector3_MagnitudeSquared (Vector3_xyz 0 0 2)"
    by (simp add: Vector3_Epsilon_def Vector3_MagnitudeSquared_eq Vector3_xyz_def mm_set_ps_def)
  from AxisAngleRadians_long_axis [OF e m, where r = pi
      and outQuat = "\<lparr>Qx = 0, Qy = 0, Qz = 0, Qw = 0\<rparr>"]
  show ?thesis
    using e m by blast
qed

section \<open>Assertions of the projection factories\<close>

text \<open>
  C9, as the code has it. \<^verbatim>\<open>OrthographicProjection\<close> reports to the assertion hook exactly
  when the width or the height is zero; it does not look at near and far.
  \<^verbatim>\<open>PerspectiveProjectionRadians\<close>, and \<^verbatim>\<open>PerspectiveProjectionDegrees\<close> which delegates to
  it, report exactly when near equals far; they do not look at the field of view.
\<close>

theorem projection_asserts:
  "(fst (OrthographicProjection w h n f (hook, m)) \<noteq> hook) = (w = 0 \<or> h = 0) \<and>
   (fst (PerspectiveProjectionRadians fovx fovy n f (hook, m)) \<noteq> hook) = (n = f) \<and>
   (fst (PerspectiveProjectionDegrees fovx fovy n f (hook, m)) \<noteq> hook) = (n = f)"
  by (simp add: OrthographicProjection_def PerspectiveProjectionRadians_def
      PerspectiveProjectionDegrees_def XO_ASSERT_def Let_def)

text \<open>
  C9 as stated fails: \<^verbatim>\<open>OrthographicProjection(1, 1, 1, 1, m)\<close> has near equal to far and
  reports nothing, and \<^verbatim>\<open>PerspectiveProjectionRadians(0, 0, 0, 1, m)\<close> has a zero field of
  view in both directions and reports nothing.
\<close>

theorem projection_asserts_counterexample:
  "fst (OrthographicProjection 1 1 1 1
         ([], Matrix4x4_16 0 0 0 0 0 0 0 0 0 0 0 0 0 0 0 0)) = [] \<and>
   fst (PerspectiveProjectionRadians 0 0 0 1
         ([], Matrix4x4_16 0 0 0 0 0 0 0 0 0 0 0 0 0 0 0 0)) = []"
  by (simp add: OrthographicProjection_def PerspectiveProjectionRadians_def XO_ASSERT_def Let_def)

section \<open>Lerp\<close>

text \<open>
  C6, as the code has it. \<^verbatim>\<open>Vector3::Lerp(a, b, t)\<close> is \<open>a + (b - a) * t\<close> for every \<open>t\<close>.
  \<^verbatim>\<open>Vector2::Lerp(a, b, t)\<close> returns \<open>a\<close> when \<open>t\<close> is within \<^verbatim>\<open>Epsilon\<close> of 0, else \<open>b\<close> when
  \<open>t\<close> is within \<^verbatim>\<open>Epsilon\<close> of 1, and \<open>a + (b - a) * t\<close> otherwise. Both give \<open>a\<close> at \<open>t = 0\<close>,
  \<open>b\<close> at \<open>t = 1\<close> and \<open>a\<close> when both ends are \<open>a\<close> (for \<^verbatim>\<open>FloatEpsilon\<close> below one half).
\<close>

theorem Lerp_as_coded:
  assumes "FloatEpsilon < 1 / 2"
  shows "Vector3_Lerp u v t = Vector3_add u (Vector3_mul_float (Vector3_sub v u) t) \<and>
   Vector3_Lerp u v 0 = u \<and> Vector3_Lerp u v 1 = v \<and> Vector3_Lerp u u t = u \<and>
   Vector2_Lerp FloatEpsilon a b t storage =
     (if CloseEnough t 0 (Vector2_Epsilon FloatEpsilon) then a
      else if CloseEnough t 1 (Vector2_Epsilon FloatEpsilon) then b
      else Vector2_add a (Vector2_mul_float (Vector2_sub b a) t)) \<and>
   Vector2_Lerp FloatEpsilon a b 0 storage = a \<and>
   Vector2_Lerp FloatEpsilon a b 1 storage = b \<and>
   Vector2_Lerp FloatEpsilon a a t storage = a"
  using assms
  by (simp add: Vector3_Lerp_def Vector3_add_def Vector3_sub_def Vector3_mul_float_def
      mm_add_ps_def mm_sub_ps_def mm_mul_ps_def mm_set1_ps_def
      Vector2_Lerp_def Vector2_Lerp_out_def Vector2_ctor_def CloseEnough_def
      Vector2_Epsilon_def Vector2_Set_eq Vector2_add_def Vector2_mul_float_def Vector2_sub_def)

theorem Lerp_as_coded_witness:
  "(1 / 8388608 :: real) < 1 / 2 \<and>
   Vector3_Lerp (Vector3_xyz 1 2 3) (Vector3_xyz 5 6 7) 1 = Vector3_xyz 5 6 7 \<and>
   Vector2_Lerp (1 / 8388608) \<lparr>V2x = 0, V2y = 0\<rparr> \<lparr>V2x = 4, V2y = 0\<rparr> 1 \<lparr>V2x = 9, V2y = 9\<rparr>
     = \<lparr>V2x = 4, V2y = 0\<rparr>"
proof -
  have h: "(1 / 8388608 :: real) < 1 / 2"
    by simp
  from Lerp_as_coded [OF h, where u = "Vector3_xyz 1 2 3" and v = "Vector3_xyz 5 6 7"
      and a = "\<lparr>V2x = 0, V2y = 0\<rparr>" and b = "\<lparr>V2x = 4, V2y = 0\<rparr>"
      and storage = "\<lparr>V2x = 9, V2y = 9\<rparr>"]
  show ?thesis
    using h by blast
qed

text \<open>
  C6 as stated fails for \<^verbatim>\<open>Vector2\<close>: with \<^verbatim>\<open>FloatEpsilon\<close> \<open>= 2\<^sup>-\<^sup>2\<^sup>3\<close>, \<open>a = (0, 0)\<close>, \<open>b = (4, 0)\<close>
  and \<open>t = 2\<^sup>-\<^sup>2\<^sup>3\<close> the function returns \<open>a\<close>, while \<open>a + (b - a) * t\<close> is \<open>(2\<^sup>-\<^sup>2\<^sup>1, 0)\<close>.
\<close>

theorem Lerp_counterexample:
  "Vector2_Lerp (1 / 8388608) \<lparr>V2x = 0, V2y = 0\<rparr> \<lparr>V2x = 4, V2y = 0\<rparr> (1 / 8388608)
      \<lparr>V2x = 0, V2y = 0\<rparr> = \<lparr>V2x = 0, V2y = 0\<rparr> \<and>
   Vector2_add \<lparr>V2x = 0, V2y = 0\<rparr>
      (Vector2_mul_float (Vector2_sub \<lparr>V2x = 4, V2y = 0\<rparr> \<lparr>V2x = 0, V2y = 0\<rparr>) (1 / 8388608))
     = \<lparr>V2x = 1 / 2097152, V2y = 0\<rparr> \<and>
   Vector2_Lerp (1 / 8388608) \<lparr>V2x = 0, V2y = 0\<rparr> \<lparr>V2x = 4, V2y = 0\<rparr> (1 / 8388608)
      \<lparr>V2x = 0, V2y = 0\<rparr> \<noteq>
   Vector2_add \<lparr>V2x = 0, V2y = 0\<rparr>
      (Vector2_mul_float (Vector2_sub \<lparr>V2x = 4, V2y = 0\<rparr> \<lparr>V2x = 0, V2y = 0\<rparr>) (1 / 8388608))"
  by (simp add: Vector2_Lerp_def Vector2_Lerp_out_def Vector2_ctor_def CloseEnough_def
      Vector2_Epsilon_def Vector2_Set_def Vector2_add_def Vector2_mul_float_def Vector2_sub_def)

section \<open>Construction\<close>

text \<open>
  C5, as the code has it. The default constructors of \<^verbatim>\<open>Vector2\<close>, \<^verbatim>\<open>Matrix4x4\<close> and
  \<^verbatim>\<open>Quaternion\<close> assign nothing: the object is whatever its storage held. Every other
  constructor in the sources assigns every component, so the object does not depend on
  the storage: the other constructors of \<^verbatim>\<open>Vector2\<close>, all constructors of \<^verbatim>\<open>Vector3\<close>
  (the default one zeroes the register), the other constructors of \<^verbatim>\<open>Matrix4x4\<close>,
  \<^verbatim>\<open>Quaternion(x, y, z, w)\<close>, and \<^verbatim>\<open>Quaternion(Matrix4x4)\<close> in the build without \<^verbatim>\<open>XO_SSE\<close>.
\<close>

theorem constructors_as_coded:
  "Vector2_ctor s2 = s2 \<and> Matrix4x4_ctor sm = sm \<and> Quaternion_ctor sq = sq \<and>
   Vector2_ctor_float v s2 = \<lparr>V2x = v, V2y = v\<rparr> \<and>
   Vector2_ctor_xy x y s2 = \<lparr>V2x = x, V2y = y\<rparr> \<and>
   Vector2_ctor_copy v2 s2 = v2 \<and>
   Vector2_ctor_Vector3 v3 s2 = \<lparr>V2x = V3x v3, V2y = V3y v3\<rparr> \<and>
   Vector2_ctor_Vector4 v4 s2 = \<lparr>V2x = V4x v4, V2y = V4y v4\<rparr> \<and>
   Vector3_ctor s3 = \<lparr>V3x = 0, V3y = 0, V3z = 0, V3w = 0\<rparr> \<and>
   Vector3_ctor_float v s3 = \<lparr>V3x = v, V3y = v, V3z = v, V3w = v\<rparr> \<and>
   Vector3_ctor_xyz x y z s3 = \<lparr>V3x = x, V3y = y, V3z = z, V3w = 0\<rparr> \<and>
   Vector3_ctor_copy v3 s3 = v3 \<and>
   Matrix4x4_ctor_float v sm =
     \<lparr>r0 = Vector4_float v, r1 = Vector4_float v, r2 = Vector4_float v, r3 = Vector4_float v\<rparr> \<and>
   Matrix4x4_ctor_16 a0 b0 c0 d0 a1 b1 c1 d1 a2 b2 c2 d2 a3 b3 c3 d3 sm =
     Matrix4x4_16 a0 b0 c0 d0 a1 b1 c1 d1 a2 b2 c2 d2 a3 b3 c3 d3 \<and>
   Matrix4x4_ctor_copy m sm = m \<and>
   Matrix4x4_ctor_rows4 w0 w1 w2 w3 sm = \<lparr>r0 = w0, r1 = w1, r2 = w2, r3 = w3\<rparr> \<and>
   Matrix4x4_ctor_rows3 widen u0 u1 u2 sm =
     \<lparr>r0 = widen u0, r1 = widen u1, r2 = widen u2, r3 = Vector4_xyzw 0 0 0 1\<rparr> \<and>
   Matrix4x4_ctor_Quaternion q sm = Matrix4x4_ctor_Quaternion q sm' \<and>
   Quaternion_ctor_xyzw x y z w sq = \<lparr>Qx = x, Qy = y, Qz = z, Qw = w\<rparr> \<and>
   Quaternion_ctor_Matrix4x4 False FloatEpsilon mat sq =
     Quaternion_ctor_Matrix4x4 False FloatEpsilon mat sq'"
  by (simp add: Vector2_ctor_def Matrix4x4_ctor_def Quaternion_ctor_def Vector2_ctor_float_def
     Vector2_ctor_xy_def Vector2_ctor_copy_def Vector2_ctor_Vector3_def Vector2_ctor_Vector4_def
     Vector3_ctor_def Vector3_ctor_float_def Vector3_ctor_xyz_def Vector3_ctor_copy_def
     mm_setzero_ps_def mm_set1_ps_def mm_set_ps_def Matrix4x4_ctor_float_def Matrix4x4_ctor_16_def
     Matrix4x4_16_def Matrix4x4_ctor_copy_def Matrix4x4_ctor_rows4_def Matrix4x4_ctor_rows3_def
     Matrix4x4_ctor_Quaternion_def Quaternion_ctor_xyzw_def
     Quaternion_ctor_Matrix4x4_scalar_storage [of FloatEpsilon mat sq sq'] Let_def)

text \<open>
  C5 as stated fails: built in two storages with different contents, the default
  constructors of \<^verbatim>\<open>Vector2\<close>, \<^verbatim>\<open>Quaternion\<close> and \<^verbatim>\<open>Matrix4x4\<close> give different objects, so
  they define no component.
\<close>

theorem constructors_counterexample:
  "Vector2_ctor \<lparr>V2x = 1, V2y = 2\<rparr> \<noteq> Vector2_ctor \<lparr>V2x = 3, V2y = 4\<rparr> \<and>
   Quaternion_ctor \<lparr>Qx = 1, Qy = 2, Qz = 3, Qw = 4\<rparr> \<noteq>
   Quaternion_ctor \<lparr>Qx = 5, Qy = 6, Qz = 7, Qw = 8\<rparr> \<and>
   Matrix4x4_ctor (Matrix4x4_16 1 2 3 4 5 6 7 8 9 10 11 12 13 14 15 16) \<noteq>
   Matrix4x4_ctor (Matrix4x4_16 0 0 0 0 0 0 0 0 0 0 0 0 0 0 0 0)"
  by (simp add: Vector2_ctor_def Quaternion_ctor_def Matrix4x4_ctor_def Matrix4x4_16_def
      Vector4_xyzw_def)

section \<open>Normalize\<close>

text \<open>
  C3 at the vector \<open>(1/2, 0, 0)\<close>, whose squared magnitude \<open>1/4\<close> is within \<^verbatim>\<open>Epsilon\<close>
  neither of 1 nor of 0 (\<^verbatim>\<open>FloatEpsilon\<close> \<open>= 2\<^sup>-\<^sup>2\<^sup>3\<close>): \<^verbatim>\<open>Vector3::Normalized\<close> and
  \<^verbatim>\<open>Vector3::Normalize\<close> return it unchanged, because their first guard is
  \<^verbatim>\<open>magnitude - 1.0f <= Epsilon\<close> without an absolute value, whereas \<^verbatim>\<open>Vector2::Normalized\<close>
  rescales \<open>(1/2, 0)\<close> to \<open>(1, 0)\<close>.
\<close>

theorem Vector3_Normalized_short_vector:
  "Vector3_MagnitudeSquared (Vector3_xyz (1 / 2) 0 0) = 1 / 4 \<and>
   Vector3_Normalized (1 / 8388608) (Vector3_xyz (1 / 2) 0 0) = Vector3_xyz (1 / 2) 0 0 \<and>
   Vector3_Normalize (1 / 8388608) (Vector3_xyz (1 / 2) 0 0) = Vector3_xyz (1 / 2) 0 0 \<and>
   Vector2_Normalized (1 / 8388608) \<lparr>V2x = 1 / 2, V2y = 0\<rparr> = \<lparr>V2x = 1, V2y = 0\<rparr>"
  by (simp add: Vector3_MagnitudeSquared_eq Vector3_Normalized_def Vector3_Normalize_def
      Vector3_xyz_def mm_set_ps_def Vector3_Epsilon_def Vector2_Normalized_def Vector2_Normalize_def
      Vector2_MagnitudeSquared_def CloseEnough_def Vector2_Epsilon_def Vector2_div_float_def
      real_sqrt_divide Let_def)

section \<open>Angles\<close>

text \<open>
  C2, as the code has it. \<^verbatim>\<open>Vector2::AngleRadians(a, b)\<close> is \<open>- atan2 (cross a b) (dot a b)\<close>,
  a signed angle in \<open>[-\<pi>, \<pi>]\<close>, and \<^verbatim>\<open>Vector2::AngleDegrees(UnitX, UnitY)\<close> is \<open>-90\<close>.
  \<^verbatim>\<open>Vector3::AngleRadians(a, b)\<close> is \<open>atan2 (|cross a b| + Epsilon) (dot a b)\<close>, which is not
  negative and lies in \<open>[0, \<pi>]\<close> (for a \<^verbatim>\<open>FloatEpsilon\<close> that is not negative);
  \<^verbatim>\<open>Vector3::AngleDegrees(v, v)\<close> is \<open>atan2 Epsilon |v|\<^sup>2\<close> in degrees, not negative either.
\<close>

theorem Angle_as_coded:
  assumes "0 \<le> FloatEpsilon"
  shows "Vector2_AngleRadians a b = - ATan2 (Vector2_Cross a b) (Vector2_Dot a b) \<and>
    - pi \<le> Vector2_AngleRadians a b \<and> Vector2_AngleRadians a b \<le> pi \<and>
    Vector2_AngleDegrees Vector2_UnitX Vector2_UnitY = - 90 \<and>
    Vector3_AngleRadians FloatEpsilon u v =
      ATan2 (sqrt (Vector3_MagnitudeSquared (Vector3_Cross u v)) + Vector3_Epsilon FloatEpsilon)
        (Vector3_Dot u v) \<and>
    0 \<le> Vector3_AngleRadians FloatEpsilon u v \<and> Vector3_AngleRadians FloatEpsilon u v \<le> pi \<and>
    Vector3_AngleDegrees FloatEpsilon v v =
      ATan2 (Vector3_Epsilon FloatEpsilon) (Vector3_MagnitudeSquared v) * Rad2Deg \<and>
    0 \<le> Vector3_AngleDegrees FloatEpsilon v v"
proof -
  have r: "- pi < ATan2 (Vector2_Cross a b) (Vector2_Dot a b)"
      "ATan2 (Vector2_Cross a b) (Vector2_Dot a b) \<le> pi"
    using ATan2_range by simp_all
  have e: "0 \<le> Vector3_Epsilon FloatEpsilon"
    using assms by (simp add: Vector3_Epsilon_def)
  have "0 \<le> sqrt (Vector3_MagnitudeSquared (Vector3_Cross u v))"
    by (simp add: Vector3_MagnitudeSquared_eq)
  then have y: "0 \<le> sqrt (Vector3_MagnitudeSquared (Vector3_Cross u v)) + Vector3_Epsilon FloatEpsilon"
    using e by linarith
  have d: "Vector3_Dot v v = Vector3_MagnitudeSquared v"
    by (simp add: Vector3_Dot_eq Vector3_MagnitudeSquared_eq)
  have vv: "Vector3_AngleRadians FloatEpsilon v v =
      ATan2 (Vector3_Epsilon FloatEpsilon) (Vector3_MagnitudeSquared v)"
    by (simp add: Vector3_AngleRadians_eq Vector3_Cross_self d)
  have "0 \<le> ATan2 (Vector3_Epsilon FloatEpsilon) (Vector3_MagnitudeSquared v)"
    using ATan2_nonneg [OF e] by simp
  then have pos: "0 \<le> Vector3_AngleDegrees FloatEpsilon v v"
    by (simp add: Vector3_AngleDegrees_def vv Rad2Deg_def)
  have u90: "Vector2_AngleDegrees Vector2_UnitX Vector2_UnitY = - 90"
    by (simp add: Vector2_AngleDegrees_def Vector2_AngleRadians_def Vector2_UnitX_def
        Vector2_UnitY_def Vector2_Cross_def Vector2_Dot_def ATan2_def Rad2Deg_def)
  have a2: "- pi \<le> Vector2_AngleRadians a b" "Vector2_AngleRadians a b \<le> pi"
    using r by (simp_all add: Vector2_AngleRadians_def)
  have a3: "0 \<le> Vector3_AngleRadians FloatEpsilon u v" "Vector3_AngleRadians FloatEpsilon u v \<le> pi"
    using ATan2_nonneg [OF y, of "Vector3_Dot u v"] by (simp_all add: Vector3_AngleRadians_eq)
  have dvv: "Vector3_AngleDegrees FloatEpsilon v v =
      ATan2 (Vector3_Epsilon FloatEpsilon) (Vector3_MagnitudeSquared v) * Rad2Deg"
    by (simp only: Vector3_AngleDegrees_def vv)
  show ?thesis
    using a2 a3 pos u90 dvv
    by (simp only: Vector2_AngleRadians_def Vector3_AngleRadians_eq simp_thms)
qed

theorem Angle_as_coded_witness:
  "(0 :: real) \<le> 1 / 8388608 \<and>
   Vector2_AngleRadians Vector2_UnitX Vector2_UnitY \<le> pi \<and>
   0 \<le> Vector3_AngleRadians (1 / 8388608) (Vector3_xyz 1 0 0) (Vector3_xyz 1 0 0) \<and>
   0 \<le> Vector3_AngleDegrees (1 / 8388608) (Vector3_xyz 1 0 0) (Vector3_xyz 1 0 0)"
proof -
  have h: "(0 :: real) \<le> 1 / 8388608"
    by simp
  from Angle_as_coded [OF h, where a = Vector2_UnitX and b = Vector2_UnitY
      and u = "Vector3_xyz 1 0 0" and v = "Vector3_xyz 1 0 0"]
  show ?thesis
    using h by blast
qed

text \<open>
  C2 as stated fails: \<^verbatim>\<open>Vector2::AngleRadians(UnitX, UnitY)\<close> is negative and
  \<^verbatim>\<open>Vector2::AngleDegrees(UnitX, UnitY)\<close> is \<open>-90\<close>, not 90; and for the zero vector,
  \<^verbatim>\<open>Vector3::AngleDegrees(v, v)\<close> is 90, not 0 (\<^verbatim>\<open>FloatEpsilon\<close> \<open>= 2\<^sup>-\<^sup>2\<^sup>3\<close>).
\<close>

theorem Angle_counterexample:
  "Vector2_AngleRadians Vector2_UnitX Vector2_UnitY < 0 \<and>
   Vector2_AngleDegrees Vector2_UnitX Vector2_UnitY = - 90 \<and>
   Vector3_AngleDegrees (1 / 8388608) (Vector3_xyz 0 0 0) (Vector3_xyz 0 0 0) = 90"
  by (simp add: Vector2_AngleDegrees_def Vector2_AngleRadians_def Vector2_UnitX_def Vector2_UnitY_def
      Vector2_Cross_def Vector2_Dot_def ATan2_def Rad2Deg_def
      Vector3_AngleDegrees_def Vector3_AngleRadians_eq Vector3_Cross_self Vector3_Dot_eq
      Vector3_xyz_def mm_set_ps_def Vector3_Epsilon_def)

section \<open>Degree and radian variants\<close>

text \<open>
  C4 at \<open>x = y = z = 90\<close>: \<^verbatim>\<open>RotationDegrees(x, y, z, m)\<close> multiplies \<^verbatim>\<open>m0 * m1 * m2\<close>
  (X, then Y, then Z), \<^verbatim>\<open>RotationRadians\<close> on the converted angles multiplies
  \<^verbatim>\<open>m *= mx * mz\<close> (Y, then X times Z), and the two matrices differ in each of their first
  three rows.
\<close>

theorem RotationDegrees_differs_from_RotationRadians:
  "RotationDegrees 90 90 90 storage m =
     Matrix4x4_16
       0 0 (- 1) 0
       0 1 0 0
       1 0 0 0
       0 0 0 1 \<and>
   RotationRadians (90 * Deg2Rad) (90 * Deg2Rad) (90 * Deg2Rad) storage m =
     Matrix4x4_16
       (- 1) 0 0 0
       0 0 (- 1) 0
       0 (- 1) 0 0
       0 0 0 1 \<and>
   RotationDegrees 90 90 90 storage m \<noteq>
   RotationRadians (90 * Deg2Rad) (90 * Deg2Rad) (90 * Deg2Rad) storage m"
  unfolding RotationDegrees_90_90_90 RotationRadians_90_90_90
  by (simp add: Matrix4x4_16_def Vector4_xyzw_def)

section \<open>Matrix to quaternion\<close>

text \<open>
  C7 on the zero matrix, whose three axes have scale 0 (\<^verbatim>\<open>FloatEpsilon\<close> \<open>= 2\<^sup>-\<^sup>2\<^sup>3\<close>): the build
  without \<^verbatim>\<open>XO_SSE\<close> constructs the identity quaternion \<open>(0, 0, 0, 1)\<close>; the build with
  \<^verbatim>\<open>XO_SSE\<close> returns from the constructor without assigning a member, so a quaternion
  built where \<open>(5, 6, 7, 8)\<close> was stored is \<open>(5, 6, 7, 8)\<close>.
\<close>

theorem Quaternion_ctor_Matrix4x4_zero_matrix:
  "degenerate (1 / 8388608) (Matrix4x4_16 0 0 0 0 0 0 0 0 0 0 0 0 0 0 0 0) \<and>
   Quaternion_ctor_Matrix4x4 False (1 / 8388608) (Matrix4x4_16 0 0 0 0 0 0 0 0 0 0 0 0 0 0 0 0)
     \<lparr>Qx = 5, Qy = 6, Qz = 7, Qw = 8\<rparr> = \<lparr>Qx = 0, Qy = 0, Qz = 0, Qw = 1\<rparr> \<and>
   Quaternion_ctor_Matrix4x4 True (1 / 8388608) (Matrix4x4_16 0 0 0 0 0 0 0 0 0 0 0 0 0 0 0 0)
     \<lparr>Qx = 5, Qy = 6, Qz = 7, Qw = 8\<rparr> = \<lparr>Qx = 5, Qy = 6, Qz = 7, Qw = 8\<rparr>"
  by (simp add: Quaternion_ctor_Matrix4x4_def degenerate_def axis_scale_def Matrix4x4_16_def
      Vector4_xyzw_def Vector3_of_Vector4_def Vector3_Magnitude_eq Vector3_xyz_def mm_set_ps_def
      Let_def)

text \<open>
  The structure of the constructor, for every \<^verbatim>\<open>FloatEpsilon\<close> that is not negative and
  every matrix. If the scale of one of the
  three axes is at most \<^verbatim>\<open>FloatEpsilon\<close>, the constructor takes the early return, and without
  \<^verbatim>\<open>XO_SSE\<close> the quaternion is the identity. Otherwise each axis, rescaled, has magnitude 1;
  the trace-dominant branch is taken exactly when \<open>xAxis.x + yAxis.y + zAxis.z + 1 > 1\<close>
  for the rescaled axes, and it computes \<open>s = 0.5 / Sqrt(trace)\<close> and the components from
  the three off-diagonal differences.
\<close>

theorem Quaternion_ctor_Matrix4x4_structure:
  assumes "0 \<le> FloatEpsilon"
  shows "(degenerate FloatEpsilon mat \<longrightarrow>
      Quaternion_ctor_Matrix4x4_branch FloatEpsilon mat = Degenerate \<and>
      Quaternion_ctor_Matrix4x4 False FloatEpsilon mat storage = Quaternion_Identity) \<and>
    (\<not> degenerate FloatEpsilon mat \<longrightarrow>
      Vector3_Magnitude (unit_axis (r0 mat)) = 1 \<and>
      Vector3_Magnitude (unit_axis (r1 mat)) = 1 \<and>
      Vector3_Magnitude (unit_axis (r2 mat)) = 1 \<and>
      (Quaternion_ctor_Matrix4x4_branch FloatEpsilon mat = TraceDominant) =
        (trace_plus_one mat > 1) \<and>
      (trace_plus_one mat > 1 \<longrightarrow>
        Quaternion_ctor_Matrix4x4 XO_SSE FloatEpsilon mat storage =
          (let s = (1 / 2) / sqrt (trace_plus_one mat) in
           \<lparr>Qx = (V3z (unit_axis (r1 mat)) - V3y (unit_axis (r2 mat))) * s,
            Qy = (V3y (unit_axis (r0 mat)) - V3x (unit_axis (r1 mat))) * s,
            Qz = (V3x (unit_axis (r2 mat)) - V3z (unit_axis (r0 mat))) * s,
            Qw = (1 / 4) / s\<rparr>)))"
proof (intro conjI impI)
  assume d: "degenerate FloatEpsilon mat"
  show "Quaternion_ctor_Matrix4x4_branch FloatEpsilon mat = Degenerate"
    using d by (simp add: Quaternion_ctor_Matrix4x4_branch_iff)
  show "Quaternion_ctor_Matrix4x4 False FloatEpsilon mat storage = Quaternion_Identity"
    using d by (rule Quaternion_ctor_Matrix4x4_degenerate)
next
  assume n: "\<not> degenerate FloatEpsilon mat"
  then have pos: "0 < axis_scale (r0 mat)" "0 < axis_scale (r1 mat)" "0 < axis_scale (r2 mat)"
    using assms by (simp_all add: degenerate_def)
  show "Vector3_Magnitude (unit_axis (r0 mat)) = 1"
    using pos(1) by (rule unit_axis_Magnitude)
  show "Vector3_Magnitude (unit_axis (r1 mat)) = 1"
    using pos(2) by (rule unit_axis_Magnitude)
  show "Vector3_Magnitude (unit_axis (r2 mat)) = 1"
    using pos(3) by (rule unit_axis_Magnitude)
  show "(Quaternion_ctor_Matrix4x4_branch FloatEpsilon mat = TraceDominant) =
      (trace_plus_one mat > 1)"
    using n by (simp add: Quaternion_ctor_Matrix4x4_branch_iff)
next
  assume n: "\<not> degenerate FloatEpsilon mat" and t: "trace_plus_one mat > 1"
  show "Quaternion_ctor_Matrix4x4 XO_SSE FloatEpsilon mat storage =
      (let s = (1 / 2) / sqrt (trace_plus_one mat) in
       \<lparr>Qx = (V3z (unit_axis (r1 mat)) - V3y (unit_axis (r2 mat))) * s,
        Qy = (V3y (unit_axis (r0 mat)) - V3x (unit_axis (r1 mat))) * s,
        Qz = (V3x (unit_axis (r2 mat)) - V3z (unit_axis (r0 mat))) * s,
        Qw = (1 / 4) / s\<rparr>)"
    using n t by (rule Quaternion_ctor_Matrix4x4_trace_dominant)
qed

theorem Quaternion_ctor_Matrix4x4_structure_witness:
  "(0 :: real) \<le> 1 / 8388608 \<and>
   degenerate (1 / 8388608) (Matrix4x4_16 0 0 0 0 0 0 0 0 0 0 0 0 0 0 0 0) \<and>
   Quaternion_ctor_Matrix4x4 False (1 / 8388608) (Matrix4x4_16 0 0 0 0 0 0 0 0 0 0 0 0 0 0 0 0)
     \<lparr>Qx = 5, Qy = 6, Qz = 7, Qw = 8\<rparr> = Quaternion_Identity \<and>
   \<not> degenerate (1 / 8388608) (Matrix4x4_16 2 0 0 0 0 2 0 0 0 0 2 0 0 0 0 1) \<and>
   trace_plus_one (Matrix4x4_16 2 0 0 0 0 2 0 0 0 0 2 0 0 0 0 1) > 1 \<and>
   Quaternion_ctor_Matrix4x4_branch (1 / 8388608) (Matrix4x4_16 2 0 0 0 0 2 0 0 0 0 2 0 0 0 0 1)
     = TraceDominant"
proof -
  have e: "(0 :: real) \<le> 1 / 8388608"
    by simp
  have d: "degenerate (1 / 8388608) (Matrix4x4_16 0 0 0 0 0 0 0 0 0 0 0 0 0 0 0 0)"
    by (simp add: degenerate_def axis_scale_def Matrix4x4_16_def Vector4_xyzw_def
        Vector3_of_Vector4_def Vector3_Magnitude_eq)
  have n: "\<not> degenerate (1 / 8388608) (Matrix4x4_16 2 0 0 0 0 2 0 0 0 0 2 0 0 0 0 1)"
    by (simp add: degenerate_def axis_scale_def Matrix4x4_16_def Vector4_xyzw_def
        Vector3_of_Vector4_def Vector3_Magnitude_eq)
  have t: "trace_plus_one (Matrix4x4_16 2 0 0 0 0 2 0 0 0 0 2 0 0 0 0 1) > 1"
    by (simp add: trace_plus_one_def unit_axis_def axis_scale_def Matrix4x4_16_def
        Vector4_xyzw_def Vector3_of_Vector4_def Vector3_Magnitude_eq Vector3_mul_float_def
        mm_mul_ps_def mm_set1_ps_def)
  from Quaternion_ctor_Matrix4x4_structure [OF e,
      of "Matrix4x4_16 0 0 0 0 0 0 0 0 0 0 0 0 0 0 0 0" "\<lparr>Qx = 5, Qy = 6, Qz = 7, Qw = 8\<rparr>"] d
  have i: "Quaternion_ctor_Matrix4x4 False (1 / 8388608)
      (Matrix4x4_16 0 0 0 0 0 0 0 0 0 0 0 0 0 0 0 0) \<lparr>Qx = 5, Qy = 6, Qz = 7, Qw = 8\<rparr>
      = Quaternion_Identity"
    by blast
  from Quaternion_ctor_Matrix4x4_structure [OF e,
      of "Matrix4x4_16 2 0 0 0 0 2 0 0 0 0 2 0 0 0 0 1"] n t
  have b: "Quaternion_ctor_Matrix4x4_branch (1 / 8388608)
      (Matrix4x4_16 2 0 0 0 0 2 0 0 0 0 2 0 0 0 0 1) = TraceDominant"
    by blast
  from e d i n t b show ?thesis
    by (intro conjI)
qed

section \<open>Round trip through a matrix\<close>

text \<open>
  C1 at the unit quaternion \<open>q = (x, y, z, w) = (0, 1, 0, 0)\<close>: \<^verbatim>\<open>Matrix4x4(q)\<close> is the
  diagonal matrix \<open>(-1, 1, -1, 1)\<close>, and \<^verbatim>\<open>Quaternion\<close> of that matrix is \<open>(0, 0, 1, 0)\<close>,
  which is neither \<open>q\<close> nor \<open>-q\<close>: \<open>y\<close> and \<open>z\<close> have changed places
  (\<^verbatim>\<open>FloatEpsilon\<close> \<open>= 2\<^sup>-\<^sup>2\<^sup>3\<close>, either build).
\<close>

theorem Quaternion_roundtrip_unit_y:
  "Matrix4x4_ctor_Quaternion \<lparr>Qx = 0, Qy = 1, Qz = 0, Qw = 0\<rparr> sm =
     Matrix4x4_16
       (- 1) 0 0 0
       0 1 0 0
       0 0 (- 1) 0
       0 0 0 1 \<and>
   Quaternion_ctor_Matrix4x4 XO_SSE (1 / 8388608)
     (Matrix4x4_ctor_Quaternion \<lparr>Qx = 0, Qy = 1, Qz = 0, Qw = 0\<rparr> sm) sq =
     \<lparr>Qx = 0, Qy = 0, Qz = 1, Qw = 0\<rparr>"
  by (simp add: Matrix4x4_ctor_Quaternion_def Vector4_of_Quaternion_def Vector4_add_def
      Vector4_mul_def Vector4_mul_float_def Vector4_UnitW_def
      Quaternion_ctor_Matrix4x4_def Matrix4x4_16_def Vector4_xyzw_def
      Vector3_of_Vector4_def Vector3_Magnitude_eq Vector3_xyz_def mm_set_ps_def
      Vector3_mul_float_def mm_mul_ps_def mm_set1_ps_def XO_ASSIGN_QUAT_eq Let_def)

text \<open>
  In general: for every quaternion \<open>q\<close> of unit magnitude and every \<^verbatim>\<open>FloatEpsilon\<close> below 1,
  \<^verbatim>\<open>Quaternion(Matrix4x4(q))\<close> is \<open>(x, z, y, w)\<close> or \<open>(-x, -z, -y, -w)\<close>: \<open>q\<close> or \<open>-q\<close> with
  the \<open>y\<close> and \<open>z\<close> components exchanged, in each of the four branches.
\<close>

theorem Quaternion_roundtrip_exchanges_y_z:
  assumes "Qx q * Qx q + Qy q * Qy q + Qz q * Qz q + Qw q * Qw q = 1"
    and "FloatEpsilon < 1"
  shows "Quaternion_ctor_Matrix4x4 XO_SSE FloatEpsilon (Matrix4x4_ctor_Quaternion q sm) sq
    \<in> {\<lparr>Qx = Qx q, Qy = Qz q, Qz = Qy q, Qw = Qw q\<rparr>,
       \<lparr>Qx = - Qx q, Qy = - Qz q, Qz = - Qy q, Qw = - Qw q\<rparr>}"
proof -
  have "Quaternion_ctor_Matrix4x4 XO_SSE FloatEpsilon (Matrix4x4_ctor_Quaternion q sm) sq =
      trace_extraction
        (V4x (r0 (Matrix4x4_ctor_Quaternion q sm))) (V4y (r0 (Matrix4x4_ctor_Quaternion q sm)))
        (V4z (r0 (Matrix4x4_ctor_Quaternion q sm)))
        (V4x (r1 (Matrix4x4_ctor_Quaternion q sm))) (V4y (r1 (Matrix4x4_ctor_Quaternion q sm)))
        (V4z (r1 (Matrix4x4_ctor_Quaternion q sm)))
        (V4x (r2 (Matrix4x4_ctor_Quaternion q sm))) (V4y (r2 (Matrix4x4_ctor_Quaternion q sm)))
        (V4z (r2 (Matrix4x4_ctor_Quaternion q sm)))"
    using axis_scale_of_Quaternion [OF assms(1)] assms(2)
    by (rule Quaternion_ctor_Matrix4x4_unit_scale)
  then show ?thesis
    using trace_extraction_of_rotation [OF assms(1)]
    by (simp only: rows_of_Quaternion Vector4.simps)
qed

theorem Quaternion_roundtrip_exchanges_y_z_witness:
  "(0 :: real) * 0 + (3 / 5) * (3 / 5) + 0 * 0 + (4 / 5) * (4 / 5) = 1 \<and>
   (1 / 8388608 :: real) < 1 \<and>
   Quaternion_ctor_Matrix4x4 False (1 / 8388608)
     (Matrix4x4_ctor_Quaternion \<lparr>Qx = 0, Qy = 3 / 5, Qz = 0, Qw = 4 / 5\<rparr>
        (Matrix4x4_16 0 0 0 0 0 0 0 0 0 0 0 0 0 0 0 0))
     \<lparr>Qx = 0, Qy = 0, Qz = 0, Qw = 0\<rparr>
    \<in> {\<lparr>Qx = 0, Qy = 0, Qz = 3 / 5, Qw = 4 / 5\<rparr>,
       \<lparr>Qx = - 0, Qy = - 0, Qz = - (3 / 5), Qw = - (4 / 5)\<rparr>}"
proof -
  have u: "Qx \<lparr>Qx = 0, Qy = 3 / 5, Qz = 0, Qw = 4 / 5\<rparr> * Qx \<lparr>Qx = 0, Qy = 3 / 5, Qz = 0, Qw = 4 / 5\<rparr>
    + Qy \<lparr>Qx = 0, Qy = 3 / 5, Qz = 0, Qw = 4 / 5\<rparr> * Qy \<lparr>Qx = 0, Qy = 3 / 5, Qz = 0, Qw = 4 / 5\<rparr>
    + Qz \<lparr>Qx = 0, Qy = 3 / 5, Qz = 0, Qw = 4 / 5\<rparr> * Qz \<lparr>Qx = 0, Qy = 3 / 5, Qz = 0, Qw = 4 / 5\<rparr>
    + Qw \<lparr>Qx = 0, Qy = 3 / 5, Qz = 0, Qw = 4 / 5\<rparr> * Qw \<lparr>Qx = 0, Qy = 3 / 5, Qz = 0, Qw = 4 / 5\<rparr>
    = (1 :: real)"
    by simp
  have e: "(1 / 8388608 :: real) < 1"
    by simp
  have n: "(0 :: real) * 0 + (3 / 5) * (3 / 5) + 0 * 0 + (4 / 5) * (4 / 5) = 1"
    by simp
  from Quaternion_roundtrip_exchanges_y_z [OF u e, of False
      "Matrix4x4_16 0 0 0 0 0 0 0 0 0 0 0 0 0 0 0 0" "\<lparr>Qx = 0, Qy = 0, Qz = 0, Qw = 0\<rparr>"]
  have "Quaternion_ctor_Matrix4x4 False (1 / 8388608)
     (Matrix4x4_ctor_Quaternion \<lparr>Qx = 0, Qy = 3 / 5, Qz = 0, Qw = 4 / 5\<rparr>
        (Matrix4x4_16 0 0 0 0 0 0 0 0 0 0 0 0 0 0 0 0))
     \<lparr>Qx = 0, Qy = 0, Qz = 0, Qw = 0\<rparr>
    \<in> {\<lparr>Qx = 0, Qy = 0, Qz = 3 / 5, Qw = 4 / 5\<rparr>,
       \<lparr>Qx = - 0, Qy = - 0, Qz = - (3 / 5), Qw = - (4 / 5)\<rparr>}"
    by (simp only: Quaternion.simps)
  with n e show ?thesis
    by (intro conjI)
qed

end
